theory Spec2Isabelle
  imports Main "HOL-Library.Sublist" "HOL-Library.List_Lexorder"
begin

section \<open>Python strings\<close>

text \<open>
  A Python \<open>str\<close> is a sequence of Unicode code points, so a string is a list of
  code points here (\<open>length\<close> counts what \<open>len\<close> counts, and the en-dash
  U+2013 is the single element \<open>8211\<close>). Whitespace is the set that
  \<open>str.split\<close>, \<open>str.strip\<close> and the pattern \<open>\s\<close> use. The decimal digits are
  those of the pattern \<open>\d\<close> and of \<open>int\<close>: the characters of the Unicode category
  Nd, which come in runs of ten, each run holding the digits 0 to 9 in order;
  \<open>digit_zeros\<close> lists the zero of every run (Unicode 14.0, sixty-six runs). Case
  mapping is modelled on the ASCII letters and on U+0131, whose upper case is \<open>I\<close>:
  these are the cased characters that the patterns of the query parser can match; any
  other code point above 127 is left alone by \<open>lower\<close> and \<open>upper\<close>.
\<close>

type_synonym ustring = "nat list"

definition ustr :: "string \<Rightarrow> ustring" where
  "ustr s = map of_char s"

definition en_dash :: nat where
  "en_dash = 8211"

definition digit_zeros :: "nat list" where
  "digit_zeros =
     [48, 1632, 1776, 1984, 2406, 2534, 2662, 2790, 2918, 3046, 3174, 3302, 3430, 3558,
      3664, 3792, 3872, 4160, 4240, 6112, 6160, 6470, 6608, 6784, 6800, 6992, 7088,
      7232, 7248, 42528, 43216, 43264, 43472, 43504, 43600, 44016, 65296, 66720, 68912,
      69734, 69872, 69942, 70096, 70384, 70736, 70864, 71248, 71360, 71472, 71904,
      72016, 72784, 73040, 73120, 92768, 92864, 93008, 120782, 120792, 120802, 120812,
      120822, 123200, 123632, 125264, 130032]"

definition digit_zero :: "nat \<Rightarrow> nat option" where
  "digit_zero c = find (\<lambda>z. z \<le> c \<and> c < z + 10) digit_zeros"

definition is_digit :: "nat \<Rightarrow> bool" where
  "is_digit c = (digit_zero c \<noteq> None)"

definition digit_value :: "nat \<Rightarrow> nat" where
  "digit_value c = (case digit_zero c of Some z \<Rightarrow> c - z | None \<Rightarrow> 0)"

definition is_space :: "nat \<Rightarrow> bool" where
  "is_space c =
     ((9 \<le> c \<and> c \<le> 13) \<or> (28 \<le> c \<and> c \<le> 32) \<or> c = 133 \<or> c = 160 \<or> c = 5760
      \<or> (8192 \<le> c \<and> c \<le> 8202) \<or> c = 8232 \<or> c = 8233 \<or> c = 8239 \<or> c = 8287
      \<or> c = 12288)"

definition lower_cp :: "nat \<Rightarrow> nat" where
  "lower_cp c = (if 65 \<le> c \<and> c \<le> 90 then c + 32 else c)"

definition upper_cp :: "nat \<Rightarrow> nat" where
  "upper_cp c = (if 97 \<le> c \<and> c \<le> 122 then c - 32 else if c = 305 then 73 else c)"

definition lower :: "ustring \<Rightarrow> ustring" where
  "lower s = map lower_cp s"

definition upper :: "ustring \<Rightarrow> ustring" where
  "upper s = map upper_cp s"

text \<open>\<open>sub in s\<close> on strings: \<open>sub\<close> occurs in \<open>s\<close> as a contiguous block.\<close>

fun str_contains :: "ustring \<Rightarrow> ustring \<Rightarrow> bool" where
  "str_contains [] sub = (sub = [])"
| "str_contains (x # xs) sub = (prefix sub (x # xs) \<or> str_contains xs sub)"

text \<open>\<open>s.split()\<close>: the maximal runs of non-whitespace, in order.\<close>

fun split_acc :: "ustring \<Rightarrow> ustring \<Rightarrow> ustring list" where
  "split_acc cur [] = (if cur = [] then [] else [cur])"
| "split_acc cur (c # cs) =
     (if is_space c then (if cur = [] then split_acc [] cs else cur # split_acc [] cs)
      else split_acc (cur @ [c]) cs)"

definition split :: "ustring \<Rightarrow> ustring list" where
  "split s = split_acc [] s"

definition strip :: "ustring \<Rightarrow> ustring" where
  "strip s = rev (dropWhile is_space (rev (dropWhile is_space s)))"

text \<open>
  \<open>int(s)\<close> on a string of decimal digits (the only strings the code converts): each
  digit counts for its value in its run. The limit that some interpreters put on the
  number of digits is not modelled.
\<close>

definition int_of_digits :: "ustring \<Rightarrow> int" where
  "int_of_digits s = foldl (\<lambda>a c. 10 * a + int (digit_value c)) 0 s"

text \<open>
  Slicing \<open>xs[:k]\<close>: the first \<open>k\<close> elements, and for a negative \<open>k\<close> all but the
  last \<open>-k\<close>.
\<close>

definition slice_to :: "int \<Rightarrow> 'a list \<Rightarrow> 'a list" where
  "slice_to k xs = (if 0 \<le> k then take (nat k) xs else take (length xs - nat (- k)) xs)"

section \<open>Regular expressions\<close>

text \<open>
  The patterns of the source are searched with \<open>re.search\<close>, a backtracking matcher:
  the leftmost start position that matches wins, and at that position the first match
  in priority order (greedy repetition first). \<open>rmatch r (s, c)\<close> lists, in that
  priority order, every way \<open>r\<close> can match a prefix of \<open>s\<close>, as the rest of the
  input with the capture groups recorded so far.
\<close>

datatype re = Atom "nat \<Rightarrow> bool" | Seq re re | Star re | Opt re | Grp nat re

type_synonym caps = "(nat \<times> ustring) list"

fun rmatch :: "re \<Rightarrow> ustring \<times> caps \<Rightarrow> (ustring \<times> caps) list" where
  "rmatch (Atom p) (s, c) = (case s of [] \<Rightarrow> [] | x # xs \<Rightarrow> if p x then [(xs, c)] else [])"
| "rmatch (Seq a b) st = concat (map (rmatch b) (rmatch a st))"
| "rmatch (Opt a) st = rmatch a st @ [st]"
| "rmatch (Star a) st =
     concat (map (rmatch (Star a))
       (filter (\<lambda>st'. length (fst st') < length (fst st)) (rmatch a st))) @ [st]"
| "rmatch (Grp n a) (s, c) =
     map (\<lambda>(s', c'). (s', (n, take (length s - length s') s) # c')) (rmatch a (s, c))"

definition Plus :: "re \<Rightarrow> re" where
  "Plus a = Seq a (Star a)"

text \<open>
  \<open>re.search\<close>: the matched text (\<open>group(0)\<close>) and the capture groups of the first
  match at the leftmost matching position, or \<open>None\<close>.
\<close>

fun re_search :: "re \<Rightarrow> ustring \<Rightarrow> (ustring \<times> caps) option" where
  "re_search r [] =
     (case rmatch r ([], []) of [] \<Rightarrow> None | (s', c) # _ \<Rightarrow> Some ([], c))"
| "re_search r (x # xs) =
     (case rmatch r (x # xs, []) of
        [] \<Rightarrow> re_search r xs
      | (s', c) # _ \<Rightarrow> Some (take (length (x # xs) - length s') (x # xs), c))"

definition re_group :: "caps \<Rightarrow> nat \<Rightarrow> ustring" where
  "re_group c n = (case map_of c n of Some g \<Rightarrow> g | None \<Rightarrow> [])"

text \<open>
  \<open>cands p s\<close> lists what a greedy repetition of the character class \<open>p\<close> can leave
  of \<open>s\<close>, the longest run first; it is used to analyse the patterns.
\<close>

fun cands :: "(nat \<Rightarrow> bool) \<Rightarrow> ustring \<Rightarrow> ustring list" where
  "cands p [] = [[]]"
| "cands p (x # xs) = (if p x then cands p xs @ [x # xs] else [x # xs])"

section \<open>Catalog data\<close>

text \<open>
  A value read from the catalog's JSON where the code tests its type: the torque range
  of a tool is a string, or \<open>null\<close>, a number or the float \<open>NaN\<close>.
\<close>

datatype pyval = PyNone | PyNum int | PyNaN | PyStr ustring

definition truthy :: "pyval \<Rightarrow> bool" where
  "truthy v = (case v of PyNone \<Rightarrow> False | PyNum n \<Rightarrow> n \<noteq> 0 | PyNaN \<Rightarrow> True | PyStr s \<Rightarrow> s \<noteq> [])"

section \<open>Metadata filter: torque range\<close>

text \<open>The pattern of the range: \<open>(\d+)\<close>, a hyphen or an en-dash, \<open>(\d+)\<close>.\<close>

definition range_re :: re where
  "range_re =
     Seq (Grp 1 (Plus (Atom is_digit)))
       (Seq (Atom (\<lambda>c. c = en_dash \<or> c = 45)) (Grp 2 (Plus (Atom is_digit))))"

text \<open>
  The parse of a range string: the bounds \<open>(int(group(1)), int(group(2)))\<close> of the
  match, if the pattern is found.
\<close>

definition parse_range :: "ustring \<Rightarrow> (int \<times> int) option" where
  "parse_range s =
     (case re_search range_re s of
        None \<Rightarrow> None
      | Some (m, c) \<Rightarrow> Some (int_of_digits (re_group c 1), int_of_digits (re_group c 2)))"

definition torque_in_range :: "int \<Rightarrow> pyval \<Rightarrow> bool" where
  "torque_in_range requested_torque torque_range =
     (case torque_range of
        PyStr s \<Rightarrow>
          if s = [] then False
          else if s = ustr ''NaN'' \<or> strip s = [] then False
          else (case parse_range s of
                  Some (min_torque, max_torque) \<Rightarrow>
                    min_torque \<le> requested_torque \<and> requested_torque \<le> max_torque
                | None \<Rightarrow> False)
      | _ \<Rightarrow> False)"

text \<open>
  The range string in the words of the specification: the text is an integer, a hyphen
  or an en-dash, and an integer, followed by the unit (whatever comes after the second
  integer). \<open>spec_range\<close> gives the two bounds of a text that reads so from its
  first character.
\<close>

definition spec_range :: "ustring \<Rightarrow> (int \<times> int) option" where
  "spec_range s =
     (case dropWhile is_digit s of
        [] \<Rightarrow> None
      | sep # r \<Rightarrow>
          if takeWhile is_digit s \<noteq> [] \<and> (sep = 45 \<or> sep = en_dash)
             \<and> takeWhile is_digit r \<noteq> []
          then Some (int_of_digits (takeWhile is_digit s), int_of_digits (takeWhile is_digit r))
          else None)"

section \<open>Tools and filters\<close>

text \<open>
  A tool of the catalog is a JSON object; its fields have the types of the catalog's
  data model: text fields that may be absent (\<open>None\<close> is the absent key), and the
  torque range, whose type the code tests. Two tools are equal when their fields are,
  as Python dictionaries are.
\<close>

record tool =
  tool_name :: "ustring option"
  category :: "ustring option"
  application_type :: "ustring option"
  voltage :: "ustring option"
  torque_range :: "pyval option"
  ip_rating :: "ustring option"
  specifications :: "ustring list"
  image_path :: "ustring option"

text \<open>\<open>d.get(key, default)\<close> on an optional field.\<close>

definition get_or :: "'a option \<Rightarrow> 'a \<Rightarrow> 'a" where
  "get_or v d = (case v of Some x \<Rightarrow> x | None \<Rightarrow> d)"

text \<open>
  The filters dictionary has at most the four keys that \<open>extract_filters\<close> writes;
  \<open>None\<close> is the absent key.
\<close>

record filters =
  f_voltage :: "ustring option"
  f_torque :: "int option"
  f_ip_rating :: "ustring option"
  f_application_type :: "ustring option"

definition no_filters :: filters where
  "no_filters =
     \<lparr>f_voltage = None, f_torque = None, f_ip_rating = None, f_application_type = None\<rparr>"

text \<open>The truth value of the dictionary: it has a key.\<close>

definition nonempty :: "filters \<Rightarrow> bool" where
  "nonempty f =
     (f_voltage f \<noteq> None \<or> f_torque f \<noteq> None \<or> f_ip_rating f \<noteq> None
      \<or> f_application_type f \<noteq> None)"

section \<open>Filter extraction (query parser)\<close>

text \<open>
  A letter of a pattern compiled with \<open>re.IGNORECASE\<close> matches its two cases; the
  letter \<open>I\<close> also matches U+0130 and U+0131, which the matcher counts among the cases
  of \<open>i\<close>.
\<close>

definition ci :: "nat \<Rightarrow> nat \<Rightarrow> bool" where
  "ci letter c =
     (lower_cp c = lower_cp letter \<or> (lower_cp letter = 105 \<and> (c = 304 \<or> c = 305)))"

text \<open>\<open>(\d+\s?V)\<close>, \<open>(\d+)\s*Nm\<close> and \<open>(IP\d+)\<close>, all three ignoring case.\<close>

definition voltage_re :: re where
  "voltage_re =
     Grp 1 (Seq (Plus (Atom is_digit)) (Seq (Opt (Atom is_space)) (Atom (ci 86))))"

definition torque_re :: re where
  "torque_re =
     Seq (Grp 1 (Plus (Atom is_digit)))
       (Seq (Star (Atom is_space)) (Seq (Atom (ci 78)) (Atom (ci 109))))"

definition ip_re :: re where
  "ip_re = Grp 1 (Seq (Atom (ci 73)) (Seq (Atom (ci 80)) (Plus (Atom is_digit))))"

text \<open>
  The decision list of the application type, on the lowercased query. Python's
  \<open>lower\<close> produces an ASCII letter from a character above 127 in two cases only:
  \<open>k\<close> from U+212A, and \<open>i\<close> followed by a combining dot from U+0130. The keywords
  below hold no \<open>k\<close> and none ends in \<open>i\<close>, so a keyword occurs in the lowercased
  query of this model exactly when it occurs in Python's.
\<close>

definition extract_application_type :: "ustring \<Rightarrow> ustring option" where
  "extract_application_type query_lower =
     (if str_contains query_lower (ustr ''cordless'')
         \<or> str_contains query_lower (ustr ''portable'')
      then Some (ustr ''Manual / Portable'')
      else if str_contains query_lower (ustr ''automation'')
         \<or> str_contains query_lower (ustr ''assembly line'')
         \<or> str_contains query_lower (ustr ''automated'')
      then Some (ustr ''Automation'')
      else if str_contains query_lower (ustr ''manual'')
         \<and> \<not> str_contains query_lower (ustr ''portable'')
      then Some (ustr ''Manual'')
      else if str_contains query_lower (ustr ''controller'')
         \<or> str_contains query_lower (ustr ''control system'')
      then Some (ustr ''Control System'')
      else if str_contains query_lower (ustr ''verification'')
         \<or> str_contains query_lower (ustr ''calibration'')
      then Some (ustr ''Quality / Verification'')
      else None)"

definition extract_filters :: "ustring \<Rightarrow> filters" where
  "extract_filters query =
     \<lparr>f_voltage =
        (case re_search voltage_re query of
           Some (m, c) \<Rightarrow> Some (upper (filter (\<lambda>x. x \<noteq> 32) m))
         | None \<Rightarrow> None),
      f_torque =
        (case re_search torque_re query of
           Some (m, c) \<Rightarrow> Some (int_of_digits (re_group c 1))
         | None \<Rightarrow> None),
      f_ip_rating =
        (case re_search ip_re query of
           Some (m, c) \<Rightarrow> Some (upper m)
         | None \<Rightarrow> None),
      f_application_type = extract_application_type (lower query)\<rparr>"

text \<open>
  The decision list in the words of the specification: the rules in their order, each
  a test on the lowercased query with the application type it gives; the first rule
  whose test holds decides, and no rule leaves the key absent.
\<close>

definition application_type_rules :: "((ustring \<Rightarrow> bool) \<times> ustring) list" where
  "application_type_rules =
     [(\<lambda>t. str_contains t (ustr ''cordless'') \<or> str_contains t (ustr ''portable''),
       ustr ''Manual / Portable''),
      (\<lambda>t. str_contains t (ustr ''automation'') \<or> str_contains t (ustr ''assembly line'')
            \<or> str_contains t (ustr ''automated''),
       ustr ''Automation''),
      (\<lambda>t. str_contains t (ustr ''manual'') \<and> \<not> str_contains t (ustr ''portable''),
       ustr ''Manual''),
      (\<lambda>t. str_contains t (ustr ''controller'') \<or> str_contains t (ustr ''control system''),
       ustr ''Control System''),
      (\<lambda>t. str_contains t (ustr ''verification'') \<or> str_contains t (ustr ''calibration''),
       ustr ''Quality / Verification'')]"

fun first_match :: "(('a \<Rightarrow> bool) \<times> 'b) list \<Rightarrow> 'a \<Rightarrow> 'b option" where
  "first_match [] t = None"
| "first_match ((test, v) # rules) t = (if test t then Some v else first_match rules t)"

text \<open>The lowercased query contains the word.\<close>

abbreviation mentions :: "ustring \<Rightarrow> string \<Rightarrow> bool" where
  "mentions q w \<equiv> str_contains (lower q) (ustr w)"

section \<open>Metadata filter\<close>

text \<open>The four narrowing steps, in the order of the source.\<close>

definition by_voltage :: "filters \<Rightarrow> tool list \<Rightarrow> tool list" where
  "by_voltage f ts =
     (case f_voltage f of
        Some v \<Rightarrow> filter (\<lambda>t. str_contains (upper (get_or (voltage t) [])) v) ts
      | None \<Rightarrow> ts)"

definition by_ip_rating :: "filters \<Rightarrow> tool list \<Rightarrow> tool list" where
  "by_ip_rating f ts =
     (case f_ip_rating f of
        Some v \<Rightarrow> filter (\<lambda>t. upper (get_or (ip_rating t) []) = v) ts
      | None \<Rightarrow> ts)"

definition by_application_type :: "filters \<Rightarrow> tool list \<Rightarrow> tool list" where
  "by_application_type f ts =
     (case f_application_type f of
        Some v \<Rightarrow> filter (\<lambda>t. application_type t = Some v) ts
      | None \<Rightarrow> ts)"

definition by_torque :: "filters \<Rightarrow> tool list \<Rightarrow> tool list" where
  "by_torque f ts =
     (case f_torque f of
        Some requested_torque \<Rightarrow>
          filter (\<lambda>t. torque_in_range requested_torque (get_or (torque_range t) (PyStr []))) ts
      | None \<Rightarrow> ts)"

definition apply_metadata_filters :: "tool list \<Rightarrow> filters \<Rightarrow> tool list" where
  "apply_metadata_filters tools f =
     (if \<not> nonempty f then tools
      else by_torque f (by_application_type f (by_ip_rating f (by_voltage f tools))))"

section \<open>A small catalog for the concrete checks\<close>

definition mk_tool ::
  "string \<Rightarrow> string \<Rightarrow> string \<Rightarrow> string \<Rightarrow> pyval \<Rightarrow> string \<Rightarrow> tool" where
  "mk_tool n c a v r i =
     \<lparr>tool_name = Some (ustr n), category = Some (ustr c), application_type = Some (ustr a),
      voltage = Some (ustr v), torque_range = Some r, ip_rating = Some (ustr i),
      specifications = [], image_path = None\<rparr>"

definition tool_a :: tool where
  "tool_a = mk_tool ''Cordless Nutrunner'' ''Nutrunner'' ''Manual / Portable'' ''18V DC''
     (PyStr (ustr ''5-100 Nm'')) ''IP54''"

definition tool_b :: tool where
  "tool_b = mk_tool ''Tightening Spindle'' ''Spindle'' ''Automation'' ''400V AC''
     (PyStr (ustr ''2'' @ en_dash # ustr ''80 Nm'')) ''IP40''"

definition tool_c :: tool where
  "tool_c = mk_tool ''Torque Controller'' ''Controller'' ''Control System'' ''230V AC''
     PyNaN ''IP40''"

section \<open>Retriever\<close>

datatype error = ValueError | IndexError

text \<open>\<open>xs.index(x)\<close>: the first position whose element equals \<open>x\<close>, or ValueError.\<close>

fun index_of :: "'a list \<Rightarrow> 'a \<Rightarrow> nat option" where
  "index_of [] x = None"
| "index_of (y # ys) x = (if y = x then Some 0 else map_option Suc (index_of ys x))"

text \<open>\<open>xs[i]\<close>: a negative index counts from the end; out of range is IndexError.\<close>

definition py_nth :: "'a list \<Rightarrow> int \<Rightarrow> 'a option" where
  "py_nth xs i =
     (if 0 \<le> i \<and> i < int (length xs) then Some (xs ! nat i)
      else if i < 0 \<and> - int (length xs) \<le> i then Some (xs ! nat (int (length xs) + i))
      else None)"

text \<open>
  The embedding service and the vector index are a black box: \<open>nearest query k\<close> is the
  row of catalog positions that \<open>index.search\<close> returns for the embedded query, nearest
  first (the index pads with \<open>-1\<close> when it holds fewer than \<open>k\<close> vectors).
\<close>

type_synonym nearest = "ustring \<Rightarrow> int \<Rightarrow> int list"

definition filtered_indices :: "tool list \<Rightarrow> tool list \<Rightarrow> nat list option" where
  "filtered_indices all_tools filtered_tools = those (map (index_of all_tools) filtered_tools)"

definition matched_indices :: "int list \<Rightarrow> nat list \<Rightarrow> int list" where
  "matched_indices all_indices fi = filter (\<lambda>idx. idx \<in> set (map int fi)) all_indices"

text \<open>The catalog positions that the search selects: \<open>matched_indices[:top_k]\<close>.\<close>

definition selected_positions ::
  "nearest \<Rightarrow> ustring \<Rightarrow> tool list \<Rightarrow> tool list \<Rightarrow> int \<Rightarrow> int list option" where
  "selected_positions nearest query filtered_tools all_tools top_k =
     (case filtered_indices all_tools filtered_tools of
        None \<Rightarrow> None
      | Some fi \<Rightarrow>
          Some (slice_to top_k
            (matched_indices (nearest query (int (length all_tools))) fi)))"

definition semantic_search_on_subset ::
  "nearest \<Rightarrow> ustring \<Rightarrow> tool list \<Rightarrow> tool list \<Rightarrow> int \<Rightarrow> error + tool list" where
  "semantic_search_on_subset nearest query filtered_tools all_tools top_k =
     (case selected_positions nearest query filtered_tools all_tools top_k of
        None \<Rightarrow> Inl ValueError
      | Some positions \<Rightarrow>
          (case those (map (py_nth all_tools) positions) of
             None \<Rightarrow> Inl IndexError
           | Some results \<Rightarrow>
               Inr (if results \<noteq> [] then results else slice_to top_k filtered_tools)))"

definition retrieve_tools ::
  "nearest \<Rightarrow> tool list \<Rightarrow> ustring \<Rightarrow> int \<Rightarrow> bool \<Rightarrow> error + tool list" where
  "retrieve_tools nearest tools query top_k use_filters =
     (let fs = (if use_filters then extract_filters query else no_filters) in
      if nonempty fs then
        (let filtered_tools = apply_metadata_filters tools fs in
         if filtered_tools \<noteq> []
         then semantic_search_on_subset nearest query filtered_tools tools 1
         else Inr [])
      else
        (case those (map (py_nth tools) (nearest query top_k)) of
           None \<Rightarrow> Inl IndexError
         | Some results \<Rightarrow> Inr (take 1 results)))"

section \<open>Clarification engine\<close>

text \<open>
  The keyword cache of the module: two global sets. \<open>_load_tool_names\<close> returns the
  cached keywords when there are any, and otherwise reads the catalog file; a read that
  fails (\<open>None\<close>) gives the empty set and leaves the cache alone.
\<close>

record cache =
  tool_names_cache :: "ustring set"
  categories_cache :: "ustring set"

definition common_words :: "ustring set" where
  "common_words =
     set (map ustr [''the'', ''a'', ''an'', ''for'', ''with'', ''and'', ''or'', ''-'',
       ''tool'', ''machine'', ''device'', ''equipment'', ''system''])"

definition name_keywords :: "tool \<Rightarrow> ustring set" where
  "name_keywords t =
     (case tool_name t of
        Some n \<Rightarrow> if n \<noteq> [] then insert (lower n) (set (split (lower n))) else {}
      | None \<Rightarrow> {})"

definition category_keywords :: "tool \<Rightarrow> ustring set" where
  "category_keywords t =
     (case category t of
        Some c \<Rightarrow> if c \<noteq> [] then set (split (lower c)) else {}
      | None \<Rightarrow> {})"

definition category_names :: "tool \<Rightarrow> ustring set" where
  "category_names t =
     (case category t of
        Some c \<Rightarrow> if c \<noteq> [] then {lower c} else {}
      | None \<Rightarrow> {})"

definition load_tool_names :: "cache \<Rightarrow> tool list option \<Rightarrow> ustring set \<times> cache" where
  "load_tool_names c file =
     (if tool_names_cache c \<noteq> {} then (tool_names_cache c, c)
      else
        (case file of
           None \<Rightarrow> ({}, c)
         | Some tools \<Rightarrow>
             (let tool_keywords =
                    (\<Union>t\<in>set tools. name_keywords t \<union> category_keywords t) - common_words
              in (tool_keywords,
                  \<lparr>tool_names_cache = tool_keywords,
                   categories_cache =
                     categories_cache c \<union> (\<Union>t\<in>set tools. category_names t)\<rparr>))))"

definition has_specific_tool :: "ustring set \<Rightarrow> ustring \<Rightarrow> bool" where
  "has_specific_tool specific_tools query_lower =
     (\<exists>tool_keyword\<in>specific_tools. str_contains query_lower tool_keyword)"

definition generic_terms :: "ustring list" where
  "generic_terms = map ustr [''tool'', ''machine'', ''device'', ''equipment'']"

definition vague_phrases :: "ustring list" where
  "vague_phrases =
     map ustr [''i want'', ''i need'', ''looking for'', ''show me'', ''give me'', ''find me'',
       ''help with'']"

definition has_generic_term :: "ustring list \<Rightarrow> bool" where
  "has_generic_term query_words = (\<exists>term\<in>set generic_terms. term \<in> set query_words)"

definition has_vague_phrase :: "ustring \<Rightarrow> bool" where
  "has_vague_phrase query_lower = (\<exists>phrase\<in>set vague_phrases. str_contains query_lower phrase)"

definition needs_clarification ::
  "cache \<Rightarrow> tool list option \<Rightarrow> ustring \<Rightarrow> filters \<Rightarrow> tool list \<Rightarrow> bool \<times> cache" where
  "needs_clarification c file query fs filtered_tools =
     (let query_lower = lower query; query_words = split query_lower in
      if nonempty fs \<and> length filtered_tools > 0 \<and> length filtered_tools \<le> 3
      then (False, c)
      else
        (let (specific_tools, c') = load_tool_names c file;
             specific = has_specific_tool specific_tools query_lower
         in
          (if specific \<and> length filtered_tools > 0
           then (if length filtered_tools > 3 then True else False)
           else if (has_generic_term query_words \<or> has_vague_phrase query_lower)
                   \<and> \<not> specific \<and> \<not> nonempty fs
           then True
           else if length query_words < 2 \<and> \<not> nonempty fs \<and> \<not> specific
           then True
           else if length filtered_tools > 3
           then True
           else if length filtered_tools = 0
           then True
           else False, c')))"

text \<open>\<open>str(n)\<close> for a length, in decimal.\<close>

fun str_of_nat :: "nat \<Rightarrow> ustring" where
  "str_of_nat n = (if n < 10 then [48 + n] else str_of_nat (n div 10) @ [48 + n mod 10])"

text \<open>
  The clarification payload: a dictionary with the keys \<open>status\<close>, \<open>message\<close>,
  \<open>questions\<close> and \<open>suggestions\<close>, the last one a dictionary of lists, in insertion
  order. \<open>filters\<close> is the key that the orchestrator adds.
\<close>

record payload =
  status :: ustring
  message :: ustring
  questions :: "ustring list"
  suggestions :: "(ustring \<times> pyval list) list"
  p_filters :: "filters option"

text \<open>\<open>sorted(set(xs))\<close> on strings.\<close>

definition sorted_set :: "ustring list \<Rightarrow> ustring list" where
  "sorted_set xs = sort (remdups xs)"

definition na :: ustring where
  "na = ustr ''N/A''"

definition examples_no_match :: "pyval list" where
  "examples_no_match =
     map (PyStr \<circ> ustr) [''cordless nutrunner'', ''handheld screwdriver'',
       ''automation spindle'', ''verification system'']"

definition examples_vague :: "pyval list" where
  "examples_vague =
     map (PyStr \<circ> ustr) [''cordless nutrunner'', ''handheld screwdriver'',
       ''automation spindle'', ''torque verification system'']"

text \<open>The four dimensions of the too-many-results case, each with what it proposes.\<close>

definition voltages_of :: "tool list \<Rightarrow> ustring list" where
  "voltages_of ts =
     sorted_set (map (\<lambda>t. get_or (voltage t) na)
       (filter (\<lambda>t. voltage t \<noteq> None \<and> voltage t \<noteq> Some []) ts))"

definition app_types_of :: "tool list \<Rightarrow> ustring list" where
  "app_types_of ts = sorted_set (map (\<lambda>t. get_or (application_type t) na) ts)"

definition torque_ranges_of :: "tool list \<Rightarrow> pyval list" where
  "torque_ranges_of ts =
     map (\<lambda>t. get_or (torque_range t) (PyStr na))
       (filter (\<lambda>t. truthy (get_or (torque_range t) PyNone)
                  \<and> get_or (torque_range t) PyNone \<noteq> PyStr (ustr ''NaN'')) ts)"

definition ip_ratings_of :: "tool list \<Rightarrow> ustring list" where
  "ip_ratings_of ts =
     sorted_set (map (\<lambda>t. get_or (ip_rating t) na)
       (filter (\<lambda>t. ip_rating t \<noteq> None \<and> ip_rating t \<noteq> Some []) ts))"

type_synonym qs = "ustring list \<times> (ustring \<times> pyval list) list"

definition ask_voltage :: "filters \<Rightarrow> tool list \<Rightarrow> qs \<Rightarrow> qs" where
  "ask_voltage fs ts acc =
     (if f_voltage fs = None \<and> length (voltages_of ts) > 1
      then (fst acc @ [ustr ''What voltage do you need?''],
            snd acc @ [(ustr ''voltage_options'', map PyStr (voltages_of ts))])
      else acc)"

definition ask_application_type :: "filters \<Rightarrow> tool list \<Rightarrow> qs \<Rightarrow> qs" where
  "ask_application_type fs ts acc =
     (if f_application_type fs = None \<and> length (app_types_of ts) > 1
      then (fst acc @ [ustr ''Is this for manual use or automation?''],
            snd acc @ [(ustr ''application_types'', map PyStr (app_types_of ts))])
      else acc)"

definition ask_torque :: "filters \<Rightarrow> tool list \<Rightarrow> qs \<Rightarrow> qs" where
  "ask_torque fs ts acc =
     (if f_torque fs = None \<and> torque_ranges_of ts \<noteq> []
      then (fst acc @ [ustr ''What torque range do you require?''],
            snd acc @ [(ustr ''torque_examples'', take 3 (torque_ranges_of ts))])
      else acc)"

definition ask_ip_rating :: "filters \<Rightarrow> tool list \<Rightarrow> qs \<Rightarrow> qs" where
  "ask_ip_rating fs ts acc =
     (if f_ip_rating fs = None \<and> fst acc = [] \<and> length (ip_ratings_of ts) > 1
      then (fst acc @ [ustr ''Do you need a specific IP rating?''],
            snd acc @ [(ustr ''ip_rating_options'', map PyStr (ip_ratings_of ts))])
      else acc)"

definition too_many :: "filters \<Rightarrow> tool list \<Rightarrow> qs" where
  "too_many fs ts =
     ask_ip_rating fs ts (ask_torque fs ts (ask_application_type fs ts (ask_voltage fs ts ([], []))))"

definition fallback_questions :: "filters \<Rightarrow> ustring list" where
  "fallback_questions fs =
     (if f_torque fs = None then [ustr ''What torque range do you require (in Nm)?''] else [])
     @ (if f_application_type fs = None then [ustr ''Is this for automation or manual use?'']
        else [])
     @ (if f_voltage fs = None
        then [ustr ''Do you have any voltage preference (e.g., 18V, 230V, 400V)?''] else [])"

definition generate_clarification_question ::
  "ustring \<Rightarrow> filters \<Rightarrow> tool list \<Rightarrow> tool list \<Rightarrow> payload" where
  "generate_clarification_question query fs filtered_tools all_tools =
     (if length filtered_tools = 0 then
        \<lparr>status = ustr ''needs_clarification'',
         message = ustr ''I couldn't find any tools matching your criteria. Could you provide more details?'',
         questions = [ustr ''What type of tool are you looking for?'',
                      ustr ''What will be the primary use case?''],
         suggestions =
           [(ustr ''categories'',
               map PyStr (sorted_set (map (\<lambda>t. get_or (category t) na) all_tools))),
            (ustr ''application_types'', map PyStr (app_types_of all_tools)),
            (ustr ''examples'', examples_no_match)],
         p_filters = None\<rparr>
      else if length filtered_tools > 3 then
        \<lparr>status = ustr ''needs_clarification'',
         message = ustr ''I found '' @ str_of_nat (length filtered_tools)
                   @ ustr '' tools that might match. Please provide more details:'',
         questions = slice_to 2 (fst (too_many fs filtered_tools)),
         suggestions = snd (too_many fs filtered_tools),
         p_filters = None\<rparr>
      else if length (split query) < 2 \<and> \<not> nonempty fs then
        \<lparr>status = ustr ''needs_clarification'',
         message = ustr ''Your query is too vague. Could you be more specific?'',
         questions = [ustr ''What type of tool are you looking for?'',
                      ustr ''What is your intended use case?''],
         suggestions = [(ustr ''examples'', examples_vague)],
         p_filters = None\<rparr>
      else
        \<lparr>status = ustr ''needs_clarification'',
         message = ustr ''Could you provide more details about your requirements?'',
         questions = slice_to 2 (fallback_questions fs),
         suggestions = [],
         p_filters = None\<rparr>)"

section \<open>Concrete filters and cache, and the decision policy in the words of the specification\<close>

definition all_four :: filters where
  "all_four = \<lparr>f_voltage = Some (ustr ''18V''), f_torque = Some 50,
     f_ip_rating = Some (ustr ''IP54''), f_application_type = Some (ustr ''Manual / Portable'')\<rparr>"

definition empty_cache :: cache where
  "empty_cache = \<lparr>tool_names_cache = {}, categories_cache = {}\<rparr>"


section \<open>Session store\<close>

text \<open>
  A parsed JSON value, as \<open>json.loads\<close> returns it, and the three shapes of a turn's
  response: a clarification payload, the parsed recommendation, or the error payload
  with the keys \<open>error\<close> and \<open>raw\<close>.
\<close>

datatype json =
  JNull | JBool bool | JNum int | JString ustring | JArray "json list"
  | JObject "(ustring \<times> json) list"

datatype response = Clarify payload | Parsed json | ErrorPayload ustring ustring

record interaction =
  i_timestamp :: int
  i_query :: ustring
  i_response :: response

text \<open>Times are microseconds; \<open>SESSION_TIMEOUT\<close> is \<open>timedelta(minutes=30)\<close>.\<close>

record session =
  session_id :: ustring
  conversation_history :: "interaction list"
  extracted_filters :: filters
  last_query :: ustring
  clarification_count :: nat
  created_at :: int
  last_accessed :: int

type_synonym sessions = "ustring \<rightharpoonup> session"

definition SESSION_TIMEOUT :: int where
  "SESSION_TIMEOUT = 30 * 60 * 1000000"

text \<open>
  Every \<open>datetime.now()\<close> of an operation is a parameter of its model, in the order of
  the calls: \<open>create_session\<close> reads the clock twice, \<open>cleanup_expired_sessions\<close> once,
  and \<open>get_session\<close> once for the cleanup and then once or twice more.
\<close>

definition create_session :: "int \<Rightarrow> int \<Rightarrow> ustring \<Rightarrow> sessions \<Rightarrow> session \<times> sessions" where
  "create_session now1 now2 sid ss =
     (let s = \<lparr>session_id = sid, conversation_history = [], extracted_filters = no_filters,
                last_query = [], clarification_count = 0, created_at = now1,
                last_accessed = now2\<rparr>
      in (s, ss(sid \<mapsto> s)))"

definition cleanup_expired_sessions :: "int \<Rightarrow> sessions \<Rightarrow> sessions" where
  "cleanup_expired_sessions now ss =
     (\<lambda>sid. case ss sid of
        None \<Rightarrow> None
      | Some s \<Rightarrow> if now - last_accessed s > SESSION_TIMEOUT then None else Some s)"

definition get_session ::
  "int \<Rightarrow> int \<Rightarrow> int \<Rightarrow> ustring \<Rightarrow> sessions \<Rightarrow> session \<times> sessions" where
  "get_session now0 now1 now2 sid ss =
     (let ss' = cleanup_expired_sessions now0 ss in
      case ss' sid of
        Some s \<Rightarrow> (s\<lparr>last_accessed := now1\<rparr>, ss'(sid \<mapsto> s\<lparr>last_accessed := now1\<rparr>))
      | None \<Rightarrow> create_session now1 now2 sid ss')"

definition get_accumulated_filters :: "session \<Rightarrow> filters" where
  "get_accumulated_filters s = extracted_filters s"

section \<open>Orchestrator\<close>

text \<open>
  The pattern that looks for JSON in the answer of the recommendation service: an
  opening brace, characters other than braces, any number of groups made of a brace
  pair around such characters and followed by such characters, and a closing brace.
\<close>

definition not_brace :: "nat \<Rightarrow> bool" where
  "not_brace c = (c \<noteq> 123 \<and> c \<noteq> 125)"

definition json_re :: re where
  "json_re =
     Seq (Atom (\<lambda>c. c = 123))
       (Seq (Star (Atom not_brace))
         (Seq (Star (Seq (Atom (\<lambda>c. c = 123))
                      (Seq (Star (Atom not_brace))
                        (Seq (Atom (\<lambda>c. c = 125)) (Star (Atom not_brace))))))
           (Atom (\<lambda>c. c = 125))))"

text \<open>
  The end of \<open>run_agent\<close>: \<open>loads\<close> is \<open>json.loads\<close>, with \<open>None\<close> for its
  JSONDecodeError.
\<close>

definition parse_result :: "(ustring \<Rightarrow> json option) \<Rightarrow> ustring \<Rightarrow> response" where
  "parse_result loads result_str =
     (case re_search json_re result_str of
        Some (json_match, c) \<Rightarrow>
          (case loads json_match of
             Some v \<Rightarrow> Parsed v
           | None \<Rightarrow> ErrorPayload (ustr ''Invalid JSON'') result_str)
      | None \<Rightarrow> ErrorPayload (ustr ''No JSON found in response'') result_str)"

text \<open>\<open>{**accumulated_filters, **current_filters}\<close>: the current value wins.\<close>

definition merge_opt :: "'a option \<Rightarrow> 'a option \<Rightarrow> 'a option" where
  "merge_opt acc cur = (case cur of Some v \<Rightarrow> Some v | None \<Rightarrow> acc)"

definition merge_filters :: "filters \<Rightarrow> filters \<Rightarrow> filters" where
  "merge_filters acc cur =
     \<lparr>f_voltage = merge_opt (f_voltage acc) (f_voltage cur),
      f_torque = merge_opt (f_torque acc) (f_torque cur),
      f_ip_rating = merge_opt (f_ip_rating acc) (f_ip_rating cur),
      f_application_type = merge_opt (f_application_type acc) (f_application_type cur)\<rparr>"

definition enhanced_query :: "ustring \<Rightarrow> session option \<Rightarrow> bool \<Rightarrow> ustring" where
  "enhanced_query user_query sess has_new_specific_tool =
     (case sess of
        None \<Rightarrow> user_query
      | Some s \<Rightarrow>
          if last_query s \<noteq> [] \<and> length (split user_query) \<le> 2 \<and> \<not> has_new_specific_tool
          then last_query s @ [32] @ user_query
          else user_query)"

text \<open>
  One turn. The recommendation service is a black box from the query, the candidates
  and the filters to a text; the catalog file has been read (\<open>catalog\<close>).
\<close>

definition run_agent ::
  "nearest \<Rightarrow> (ustring \<Rightarrow> tool list \<Rightarrow> filters \<Rightarrow> ustring) \<Rightarrow> (ustring \<Rightarrow> json option) \<Rightarrow>
   tool list \<Rightarrow> cache \<Rightarrow> ustring \<Rightarrow> session option \<Rightarrow> (error + response) \<times> cache" where
  "run_agent nearest recommend loads catalog c user_query sess =
     (let accumulated_filters =
            (case sess of Some s \<Rightarrow> get_accumulated_filters s | None \<Rightarrow> no_filters);
          current_filters = extract_filters user_query;
          (specific_tools, c1) = load_tool_names c (Some catalog);
          has_new_specific_tool = has_specific_tool specific_tools (lower user_query);
          enhanced = enhanced_query user_query sess has_new_specific_tool;
          merged_filters =
            (if has_new_specific_tool then current_filters
             else merge_filters accumulated_filters current_filters)
      in case retrieve_tools nearest catalog enhanced 3 True of
           Inl e \<Rightarrow> (Inl e, c1)
         | Inr retrieved \<Rightarrow>
             (let tools =
                    (if nonempty merged_filters \<and> nonempty accumulated_filters
                     then (if retrieved \<noteq> [] then apply_metadata_filters retrieved merged_filters
                           else [])
                     else retrieved);
                  (clarify, c2) =
                    needs_clarification c1 (Some catalog) user_query merged_filters tools
              in if clarify
                 then (Inr (Clarify
                         ((generate_clarification_question user_query merged_filters tools
                             catalog)\<lparr>p_filters := Some merged_filters\<rparr>)), c2)
                 else (Inr (parse_result loads (recommend user_query tools merged_filters)),
                       c2)))"

section \<open>The first balanced object, in the words of the specification\<close>





section \<open>The pattern read as an automaton\<close>




section \<open>A fresh session and a stored one\<close>

definition fresh :: "int \<Rightarrow> int \<Rightarrow> ustring \<Rightarrow> session" where
  "fresh now1 now2 sid =
     \<lparr>session_id = sid, conversation_history = [], extracted_filters = no_filters,
      last_query = [], clarification_count = 0, created_at = now1, last_accessed = now2\<rparr>"

definition old_session :: session where
  "old_session =
     \<lparr>session_id = ustr ''s1'',
      conversation_history =
        [\<lparr>i_timestamp = 0, i_query = ustr ''nutrunner'',
          i_response = ErrorPayload (ustr ''Invalid JSON'') []\<rparr>],
      extracted_filters = no_filters\<lparr>f_voltage := Some (ustr ''18V'')\<rparr>,
      last_query = ustr ''nutrunner'', clarification_count = 1, created_at = 0,
      last_accessed = 0\<rparr>"

section \<open>Verification: the torque range test\<close>

lemma digit_zero_low: "c < 1632 \<Longrightarrow> digit_zero c = (if 48 \<le> c \<and> c \<le> 57 then Some 48 else None)"
  by (simp add: digit_zero_def digit_zeros_def)

lemma is_digit_ascii: "c < 128 \<Longrightarrow> is_digit c = (48 \<le> c \<and> c \<le> 57)"
  by (simp add: is_digit_def digit_zero_low)

lemma digit_value_ascii: "48 \<le> c \<Longrightarrow> c \<le> 57 \<Longrightarrow> digit_value c = c - 48"
  by (simp add: digit_value_def digit_zero_low)

lemma en_dash_not_digit: "\<not> is_digit 8211"
  by (simp add: is_digit_def digit_zero_def digit_zeros_def)

lemma sep_not_digit: "sep = 45 \<or> sep = en_dash \<Longrightarrow> \<not> is_digit sep"
  using en_dash_not_digit by (auto simp: is_digit_ascii en_dash_def)


lemma range_not_digit: "7258 \<le> c \<Longrightarrow> c < 42528 \<Longrightarrow> \<not> is_digit c"
  by (simp add: is_digit_def digit_zero_def digit_zeros_def)

lemma space_not_digit: "is_space x \<Longrightarrow> \<not> is_digit x"
proof -
  assume s: "is_space x"
  consider "x < 128" | "x = 133 \<or> x = 160" | "x = 5760" | "7258 \<le> x \<and> x < 42528"
    using s by (auto simp: is_space_def)
  then show ?thesis
  proof cases
    case 1
    with s show ?thesis by (auto simp: is_digit_ascii is_space_def)
  next
    case 2
    then show ?thesis by (auto simp: is_digit_def digit_zero_low)
  next
    case 3
    then show ?thesis by (simp add: is_digit_def digit_zero_def digit_zeros_def)
  next
    case 4
    then show ?thesis by (simp add: range_not_digit)
  qed
qed

lemma star_atom_cands: "rmatch (Star (Atom p)) (s, c) = map (\<lambda>t. (t, c)) (cands p s)"
  by (induction s) simp_all

lemma cands_mem: "t \<in> set (cands p s) \<Longrightarrow> \<exists>d. s = d @ t \<and> list_all p d"
proof (induction s)
  case Nil
  then show ?case by simp
next
  case (Cons x xs)
  show ?case
  proof (cases "t = x # xs")
    case True
    then show ?thesis by (intro exI[of _ "[]"]) simp
  next
    case False
    with Cons.prems have "p x" "t \<in> set (cands p xs)" by (auto split: if_splits)
    with Cons.IH obtain d where "xs = d @ t" "list_all p d" by blast
    with \<open>p x\<close> show ?thesis by (intro exI[of _ "x # d"]) simp
  qed
qed

lemma plus_atom:
  "rmatch (Plus (Atom p)) (s, c) =
     (case s of [] \<Rightarrow> [] | x # xs \<Rightarrow> if p x then map (\<lambda>t. (t, c)) (cands p xs) else [])"
  by (cases s) (simp_all add: Plus_def star_atom_cands del: rmatch.simps(4))

lemma plus_mem:
  "(t, c') \<in> set (rmatch (Plus (Atom p)) (s, c)) \<Longrightarrow> \<exists>d. d \<noteq> [] \<and> list_all p d \<and> s = d @ t"
proof (cases s)
  case Nil
  assume "(t, c') \<in> set (rmatch (Plus (Atom p)) (s, c))"
  with Nil show ?thesis by (simp add: plus_atom)
next
  case (Cons x xs)
  assume "(t, c') \<in> set (rmatch (Plus (Atom p)) (s, c))"
  with Cons have "p x" "t \<in> set (cands p xs)"
    by (auto simp: plus_atom split: if_splits)
  with cands_mem obtain d where "xs = d @ t" "list_all p d" by blast
  with \<open>p x\<close> Cons show ?thesis by (intro exI[of _ "x # d"]) simp
qed

lemma grp_plus_mem:
  "(t, c') \<in> set (rmatch (Grp n (Plus (Atom p))) (s, c)) \<Longrightarrow>
   \<exists>d. d \<noteq> [] \<and> list_all p d \<and> s = d @ t"
proof -
  assume "(t, c') \<in> set (rmatch (Grp n (Plus (Atom p))) (s, c))"
  then obtain c'' where "(t, c'') \<in> set (rmatch (Plus (Atom p)) (s, c))"
    by (auto simp del: rmatch.simps(2,4))
  then show ?thesis by (rule plus_mem)
qed

lemma atom_mem: "(t, c') \<in> set (rmatch (Atom q) (s, c)) \<Longrightarrow> \<exists>x. s = x # t \<and> q x"
  by (cases s) (auto split: if_splits)

lemma range_match_shape:
  assumes "rmatch range_re (s, c) \<noteq> []"
  shows "\<exists>d1 sep d2 t. s = d1 @ sep # d2 @ t \<and> d1 \<noteq> [] \<and> list_all is_digit d1
           \<and> (sep = 45 \<or> sep = en_dash) \<and> d2 \<noteq> [] \<and> list_all is_digit d2"
proof -
  define G1 where "G1 = Grp 1 (Plus (Atom is_digit))"
  define G2 where "G2 = Grp 2 (Plus (Atom is_digit))"
  define S where "S = Atom (\<lambda>c. c = en_dash \<or> c = 45)"
  have r: "range_re = Seq G1 (Seq S G2)" by (simp add: range_re_def G1_def G2_def S_def)
  from assms have "concat (map (rmatch (Seq S G2)) (rmatch G1 (s, c))) \<noteq> []"
    unfolding r rmatch.simps(2) .
  then obtain st1 where s1: "st1 \<in> set (rmatch G1 (s, c))" "rmatch (Seq S G2) st1 \<noteq> []"
    by (auto simp del: rmatch.simps)
  from s1(2) have "concat (map (rmatch G2) (rmatch S st1)) \<noteq> []"
    unfolding rmatch.simps(2) .
  then obtain st2 where s2: "st2 \<in> set (rmatch S st1)" "rmatch G2 st2 \<noteq> []"
    by (auto simp del: rmatch.simps)
  from s2(2) obtain st3 where s3: "st3 \<in> set (rmatch G2 st2)"
    by (cases "rmatch G2 st2") auto
  obtain t1 c1 where st1: "st1 = (t1, c1)" by (cases st1)
  obtain t2 c2 where st2: "st2 = (t2, c2)" by (cases st2)
  obtain t3 c3 where st3: "st3 = (t3, c3)" by (cases st3)
  have m: "(t1, c1) \<in> set (rmatch G1 (s, c))" "(t2, c2) \<in> set (rmatch S (t1, c1))"
       "(t3, c3) \<in> set (rmatch G2 (t2, c2))"
    using s1(1) s2(1) s3 unfolding st1 st2 st3 by blast+
  from grp_plus_mem[OF m(1)[unfolded G1_def]] obtain d1 where
    d1: "d1 \<noteq> []" "list_all is_digit d1" "s = d1 @ t1" by blast
  from atom_mem[OF m(2)[unfolded S_def]] obtain sep where
    sep: "t1 = sep # t2" "sep = en_dash \<or> sep = 45" by blast
  from grp_plus_mem[OF m(3)[unfolded G2_def]] obtain d2 where
    d2: "d2 \<noteq> []" "list_all is_digit d2" "t2 = d2 @ t3" by blast
  show ?thesis using d1 sep d2 by blast
qed

lemma takeWhile_digits:
  "list_all is_digit d \<Longrightarrow> t = [] \<or> \<not> is_digit (hd t) \<Longrightarrow> takeWhile is_digit (d @ t) = d"
  by (induction d) (auto simp: takeWhile_eq_Nil_iff)

lemma dropWhile_digits:
  "list_all is_digit d \<Longrightarrow> t = [] \<or> \<not> is_digit (hd t) \<Longrightarrow> dropWhile is_digit (d @ t) = t"
  by (induction d) (auto simp: dropWhile_eq_self_iff)

lemma spec_range_shape:
  assumes "s = d1 @ sep # d2 @ t" "d1 \<noteq> []" "list_all is_digit d1" "sep = 45 \<or> sep = en_dash"
    "d2 \<noteq> []" "list_all is_digit d2"
  shows "spec_range s \<noteq> None"
proof -
  have nd: "\<not> is_digit sep" using assms(4) by (rule sep_not_digit)
  have a: "takeWhile is_digit s = d1" "dropWhile is_digit s = sep # d2 @ t"
    unfolding assms(1) using takeWhile_digits[OF assms(3), of "sep # d2 @ t"]
      dropWhile_digits[OF assms(3), of "sep # d2 @ t"] nd by simp_all
  obtain x d where d: "d2 = x # d" "is_digit x" using assms(5,6) by (cases d2) auto
  then have "takeWhile is_digit (d2 @ t) \<noteq> []" by simp
  then show ?thesis using a assms(2,4) by (simp add: spec_range_def)
qed

lemma spec_range_Some:
  "spec_range s = Some (lo, hi) \<longleftrightarrow>
     (\<exists>d1 sep d2 post. s = d1 @ sep # d2 @ post \<and> d1 \<noteq> [] \<and> list_all is_digit d1
        \<and> (sep = 45 \<or> sep = en_dash) \<and> d2 \<noteq> [] \<and> list_all is_digit d2
        \<and> (post = [] \<or> \<not> is_digit (hd post))
        \<and> lo = int_of_digits d1 \<and> hi = int_of_digits d2)"
proof
  assume a: "spec_range s = Some (lo, hi)"
  then obtain sep r where r: "dropWhile is_digit s = sep # r"
    by (cases "dropWhile is_digit s") (simp_all add: spec_range_def)
  define d1 where "d1 = takeWhile is_digit s"
  define d2 where "d2 = takeWhile is_digit r"
  define post where "post = dropWhile is_digit r"
  from a r have p: "d1 \<noteq> []" "sep = 45 \<or> sep = en_dash" "d2 \<noteq> []"
    "lo = int_of_digits d1" "hi = int_of_digits d2"
    by (auto simp: spec_range_def d1_def d2_def split: if_splits)
  have "s = d1 @ sep # r" using r takeWhile_dropWhile_id[of is_digit s] by (simp add: d1_def)
  moreover have "r = d2 @ post" by (simp add: d2_def post_def)
  ultimately have "s = d1 @ sep # d2 @ post" by simp
  moreover have "list_all is_digit d1" "list_all is_digit d2"
    by (auto simp: d1_def d2_def list_all_iff dest: set_takeWhileD)
  moreover have "post = [] \<or> \<not> is_digit (hd post)"
    using hd_dropWhile[of is_digit r] by (auto simp: post_def)
  ultimately show "\<exists>d1 sep d2 post. s = d1 @ sep # d2 @ post \<and> d1 \<noteq> [] \<and> list_all is_digit d1
        \<and> (sep = 45 \<or> sep = en_dash) \<and> d2 \<noteq> [] \<and> list_all is_digit d2
        \<and> (post = [] \<or> \<not> is_digit (hd post))
        \<and> lo = int_of_digits d1 \<and> hi = int_of_digits d2"
    using p by blast
next
  assume "\<exists>d1 sep d2 post. s = d1 @ sep # d2 @ post \<and> d1 \<noteq> [] \<and> list_all is_digit d1
        \<and> (sep = 45 \<or> sep = en_dash) \<and> d2 \<noteq> [] \<and> list_all is_digit d2
        \<and> (post = [] \<or> \<not> is_digit (hd post))
        \<and> lo = int_of_digits d1 \<and> hi = int_of_digits d2"
  then obtain d1 sep d2 post where
    h: "s = d1 @ sep # d2 @ post" "d1 \<noteq> []" "list_all is_digit d1" "sep = 45 \<or> sep = en_dash"
       "d2 \<noteq> []" "list_all is_digit d2" "post = [] \<or> \<not> is_digit (hd post)"
       "lo = int_of_digits d1" "hi = int_of_digits d2"
    by blast
  have nd: "\<not> is_digit sep" using h(4) by (rule sep_not_digit)
  have a: "takeWhile is_digit s = d1" "dropWhile is_digit s = sep # d2 @ post"
    unfolding h(1) using takeWhile_digits[OF h(3), of "sep # d2 @ post"]
      dropWhile_digits[OF h(3), of "sep # d2 @ post"] nd by simp_all
  have b: "takeWhile is_digit (d2 @ post) = d2" using takeWhile_digits[OF h(6,7)] .
  show "spec_range s = Some (lo, hi)"
    using a b h(2,4,5,8,9) by (simp add: spec_range_def)
qed

text \<open>A greedy repetition of one character class takes the whole run first.\<close>

lemma star_first:
  "\<forall>x\<in>set d. p x \<Longrightarrow> t = [] \<or> \<not> p (hd t) \<Longrightarrow>
   \<exists>r. rmatch (Star (Atom p)) (d @ t, c) = (t, c) # r"
proof (induction d)
  case Nil
  then show ?case by (cases t) auto
next
  case (Cons x d)
  then obtain r where "rmatch (Star (Atom p)) (d @ t, c) = (t, c) # r" by auto
  with Cons.prems show ?case by simp
qed

lemma plus_first:
  assumes "d \<noteq> []" and "\<forall>x\<in>set d. p x" and "t = [] \<or> \<not> p (hd t)"
  shows "\<exists>r. rmatch (Plus (Atom p)) (d @ t, c) = (t, c) # r"
proof -
  obtain x d' where d: "d = x # d'" using assms(1) by (cases d) auto
  with assms(2) have "\<forall>x\<in>set d'. p x" by simp
  from star_first[OF this assms(3)]
  obtain r where "rmatch (Star (Atom p)) (d' @ t, c) = (t, c) # r" by blast
  with assms(2) d show ?thesis by (simp add: Plus_def)
qed

lemma range_first:
  assumes "d1 \<noteq> []" "\<forall>x\<in>set d1. is_digit x" "d2 \<noteq> []" "\<forall>x\<in>set d2. is_digit x"
    "sep = 45 \<or> sep = en_dash" "t = [] \<or> \<not> is_digit (hd t)"
  shows "\<exists>r. rmatch range_re (d1 @ sep # d2 @ t, c) = (t, (2, d2) # (1, d1) # c) # r"
proof -
  have nd: "\<not> is_digit sep" using assms(5) by (rule sep_not_digit)
  from plus_first[OF assms(1,2), of "sep # d2 @ t" c] nd
  obtain r1 where
    r1: "rmatch (Plus (Atom is_digit)) (d1 @ sep # d2 @ t, c) = (sep # d2 @ t, c) # r1"
    by auto
  from plus_first[OF assms(3,4,6), of "(1, d1) # c"]
  obtain r2 where
    r2: "rmatch (Plus (Atom is_digit)) (d2 @ t, (1, d1) # c) = (t, (1, d1) # c) # r2"
    by auto
  show ?thesis
    using r1 r2 assms(5) by (auto simp: range_re_def)
qed

lemma parse_range_canonical:
  assumes "d1 \<noteq> []" "\<forall>x\<in>set d1. is_digit x" "d2 \<noteq> []" "\<forall>x\<in>set d2. is_digit x"
    "sep = 45 \<or> sep = en_dash" "t = [] \<or> \<not> is_digit (hd t)"
  shows "parse_range (d1 @ sep # d2 @ t) = Some (int_of_digits d1, int_of_digits d2)"
proof -
  from range_first[OF assms, of "[]"] obtain r where
    r: "rmatch range_re (d1 @ sep # d2 @ t, []) = (t, [(2, d2), (1, d1)]) # r" by blast
  obtain x d where d: "d1 = x # d" using assms(1) by (cases d1) auto
  show ?thesis using r unfolding d by (simp add: parse_range_def re_group_def)
qed

text \<open>
  The search tries the positions from the left, and at each position the pattern
  matches exactly when the text from there reads as a range.
\<close>

lemma parse_range_Nil: "parse_range [] = None"
proof -
  have "rmatch range_re ([], []) = []"
    using range_match_shape[of "[]" "[]"] by auto
  then show ?thesis by (simp add: parse_range_def)
qed

lemma parse_range_Cons:
  "parse_range (x # xs) =
     (case spec_range (x # xs) of Some r \<Rightarrow> Some r | None \<Rightarrow> parse_range xs)"
proof (cases "spec_range (x # xs)")
  case None
  have "rmatch range_re (x # xs, []) = []"
  proof (rule ccontr)
    assume "rmatch range_re (x # xs, []) \<noteq> []"
    from range_match_shape[OF this] obtain d1 sep d2 t where
      "x # xs = d1 @ sep # d2 @ t" "d1 \<noteq> []" "list_all is_digit d1" "sep = 45 \<or> sep = en_dash"
      "d2 \<noteq> []" "list_all is_digit d2" by blast
    from spec_range_shape[OF this] None show False by simp
  qed
  with None show ?thesis by (simp add: parse_range_def)
next
  case (Some r)
  obtain lo hi where r: "r = (lo, hi)" by (cases r)
  from Some[unfolded r spec_range_Some] obtain d1 sep d2 post where
    h: "x # xs = d1 @ sep # d2 @ post" "d1 \<noteq> []" "list_all is_digit d1" "sep = 45 \<or> sep = en_dash"
       "d2 \<noteq> []" "list_all is_digit d2" "post = [] \<or> \<not> is_digit (hd post)"
       "lo = int_of_digits d1" "hi = int_of_digits d2"
    by blast
  have "parse_range (d1 @ sep # d2 @ post) = Some (int_of_digits d1, int_of_digits d2)"
    using h(2-7) by (intro parse_range_canonical) (simp_all add: list_all_iff)
  then show ?thesis using Some r h(1,8,9) by simp
qed

lemma parse_range_leftmost:
  "parse_range s = Some r \<longleftrightarrow>
     (\<exists>i\<le>length s. spec_range (drop i s) = Some r \<and> (\<forall>j<i. spec_range (drop j s) = None))"
proof (induction s)
  case Nil
  have "spec_range [] = None" by (simp add: spec_range_def)
  then show ?case by (simp add: parse_range_Nil)
next
  case (Cons x xs)
  show ?case
  proof (cases "spec_range (x # xs)")
    case (Some r')
    have "(\<exists>i\<le>length (x # xs). spec_range (drop i (x # xs)) = Some r
            \<and> (\<forall>j<i. spec_range (drop j (x # xs)) = None)) \<longleftrightarrow> r' = r"
    proof
      assume "\<exists>i\<le>length (x # xs). spec_range (drop i (x # xs)) = Some r
            \<and> (\<forall>j<i. spec_range (drop j (x # xs)) = None)"
      then obtain i where i: "spec_range (drop i (x # xs)) = Some r"
        "\<forall>j<i. spec_range (drop j (x # xs)) = None" by blast
      have "i = 0"
      proof (rule ccontr)
        assume "i \<noteq> 0"
        then have "spec_range (drop 0 (x # xs)) = None" using i(2) by blast
        with Some show False by simp
      qed
      with i(1) Some show "r' = r" by simp
    next
      assume "r' = r"
      with Some show "\<exists>i\<le>length (x # xs). spec_range (drop i (x # xs)) = Some r
            \<and> (\<forall>j<i. spec_range (drop j (x # xs)) = None)"
        by (intro exI[of _ 0]) simp
    qed
    with Some show ?thesis by (simp only: parse_range_Cons) auto
  next
    case None
    have "(\<exists>i\<le>length (x # xs). spec_range (drop i (x # xs)) = Some r
            \<and> (\<forall>j<i. spec_range (drop j (x # xs)) = None))
        \<longleftrightarrow> (\<exists>i\<le>length xs. spec_range (drop i xs) = Some r
            \<and> (\<forall>j<i. spec_range (drop j xs) = None))"
    proof
      assume "\<exists>i\<le>length (x # xs). spec_range (drop i (x # xs)) = Some r
            \<and> (\<forall>j<i. spec_range (drop j (x # xs)) = None)"
      then obtain i where i: "i \<le> length (x # xs)" "spec_range (drop i (x # xs)) = Some r"
        "\<forall>j<i. spec_range (drop j (x # xs)) = None" by blast
      from i(2) None obtain k where k: "i = Suc k" by (cases i) simp_all
      have "\<forall>j<k. spec_range (drop j xs) = None"
      proof (intro allI impI)
        fix j assume "j < k"
        then have "Suc j < i" using k by simp
        with i(3) have "spec_range (drop (Suc j) (x # xs)) = None" by blast
        then show "spec_range (drop j xs) = None" by simp
      qed
      with i(1,2) k show "\<exists>i\<le>length xs. spec_range (drop i xs) = Some r
            \<and> (\<forall>j<i. spec_range (drop j xs) = None)"
        by (intro exI[of _ k]) simp
    next
      assume "\<exists>i\<le>length xs. spec_range (drop i xs) = Some r
            \<and> (\<forall>j<i. spec_range (drop j xs) = None)"
      then obtain i where i: "i \<le> length xs" "spec_range (drop i xs) = Some r"
        "\<forall>j<i. spec_range (drop j xs) = None" by blast
      have "\<forall>j<Suc i. spec_range (drop j (x # xs)) = None"
      proof (intro allI impI)
        fix j assume j: "j < Suc i"
        show "spec_range (drop j (x # xs)) = None"
        proof (cases j)
          case 0
          with None show ?thesis by simp
        next
          case (Suc k)
          with j i(3) show ?thesis by simp
        qed
      qed
      with i(1,2) show "\<exists>i\<le>length (x # xs). spec_range (drop i (x # xs)) = Some r
            \<and> (\<forall>j<i. spec_range (drop j (x # xs)) = None)"
        by (intro exI[of _ "Suc i"]) simp
    qed
    with None Cons.IH show ?thesis by (simp only: parse_range_Cons) simp
  qed
qed

text \<open>A string without a digit has no range in it.\<close>

lemma spec_range_no_digit: "s = [] \<or> \<not> is_digit (hd s) \<Longrightarrow> spec_range s = None"
  by (cases s) (auto simp: spec_range_def split: list.splits)

lemma parse_range_no_digit: "\<forall>x\<in>set s. \<not> is_digit x \<Longrightarrow> parse_range s = None"
  by (induction s) (simp_all add: parse_range_Nil parse_range_Cons spec_range_no_digit)

lemma strip_empty: "strip s = [] \<Longrightarrow> \<forall>x\<in>set s. is_space x"
proof -
  assume "strip s = []"
  then have a: "dropWhile is_space (rev (dropWhile is_space s)) = []" by (simp add: strip_def)
  have "dropWhile is_space s = []"
  proof (rule ccontr)
    assume n: "dropWhile is_space s \<noteq> []"
    then have "\<not> is_space (hd (dropWhile is_space s))" by (rule hd_dropWhile)
    moreover have "hd (dropWhile is_space s) \<in> set (rev (dropWhile is_space s))" using n by simp
    moreover from a have "\<forall>x\<in>set (rev (dropWhile is_space s)). is_space x"
      by (simp only: dropWhile_eq_Nil_conv)
    ultimately show False by blast
  qed
  then show ?thesis by (simp add: dropWhile_eq_Nil_conv)
qed

lemma parse_range_blank: "strip s = [] \<Longrightarrow> parse_range s = None"
  using strip_empty[of s] parse_range_no_digit[of s] space_not_digit by blast

lemma parse_range_NaN: "parse_range (ustr ''NaN'') = None"
  by (rule parse_range_no_digit) (simp add: ustr_def is_digit_ascii)

lemma torque_in_range_iff:
  "torque_in_range t v \<longleftrightarrow>
     (\<exists>s lo hi. v = PyStr s \<and> parse_range s = Some (lo, hi) \<and> lo \<le> t \<and> t \<le> hi)"
proof (cases v)
  case (PyStr s)
  then show ?thesis
    using parse_range_blank[of s] parse_range_NaN parse_range_Nil
    by (auto simp: torque_in_range_def split: option.splits)
qed (simp_all add: torque_in_range_def)

lemmas spec_range_eval =
  spec_range_def ustr_def is_digit_ascii en_dash_not_digit en_dash_def int_of_digits_def
  digit_value_ascii

lemma parse_range_hyphen: "parse_range (ustr ''5-100 Nm'') = Some (5, 100)"
  by (simp add: ustr_def parse_range_Cons spec_range_eval)

lemma parse_range_en_dash:
  "parse_range (ustr ''5'' @ en_dash # ustr ''100 Nm'') = Some (5, 100)"
  by (simp add: ustr_def parse_range_Cons spec_range_eval)

lemma parse_range_decimal: "parse_range (ustr ''1.5-100 Nm'') = Some (5, 100)"
  by (simp add: ustr_def parse_range_Cons spec_range_eval)

text \<open>
  The range pattern is searched anywhere in the string, so a string that does not read
  as a range can hold one: in \<open>1.5-100 Nm\<close> the pattern finds \<open>5-100\<close>, and the
  requested torque 50 is accepted (and 3 refused) although the string is not an
  integer, a separator and an integer.
\<close>

theorem decimal_range_counterexample:
  "torque_in_range 50 (PyStr (ustr ''1.5-100 Nm''))
   \<and> spec_range (ustr ''1.5-100 Nm'') = None
   \<and> \<not> torque_in_range 3 (PyStr (ustr ''1.5-100 Nm''))"
proof -
  have "spec_range (ustr ''1.5-100 Nm'') = None"
    by (simp add: spec_range_eval)
  then show ?thesis by (simp add: torque_in_range_iff parse_range_decimal)
qed

text \<open>
  Claim C6, amended. \<open>_torque_in_range(t, s)\<close> is true exactly when \<open>s\<close> is a string
  and, at the leftmost position from which the text reads as a range, the two bounds
  contain \<open>t\<close>, both included; the text before that position and after the range is
  ignored. A text reads as a range when it is a run of decimal digits, one hyphen or
  en-dash and nothing else between, and a run of decimal digits, each run taken whole;
  the bounds are the values of the two runs. The examples of the specification hold,
  the en-dash string behaves as the hyphen string for every requested torque, and a
  value that is \<open>None\<close>, a number, the float \<open>NaN\<close>, the string \<open>NaN\<close>, empty (also
  the default of a missing key) or a string that reads as a range at no position gives
  false.
\<close>

theorem torque_in_range_leftmost:
  "(torque_in_range t v \<longleftrightarrow>
      (\<exists>s i lo hi. v = PyStr s \<and> i \<le> length s \<and> spec_range (drop i s) = Some (lo, hi)
         \<and> (\<forall>j<i. spec_range (drop j s) = None) \<and> lo \<le> t \<and> t \<le> hi))
   \<and> (spec_range r = Some (a, b) \<longleftrightarrow>
        (\<exists>d1 sep d2 post. r = d1 @ sep # d2 @ post \<and> d1 \<noteq> [] \<and> list_all is_digit d1
           \<and> (sep = 45 \<or> sep = en_dash) \<and> d2 \<noteq> [] \<and> list_all is_digit d2
           \<and> (post = [] \<or> \<not> is_digit (hd post))
           \<and> a = int_of_digits d1 \<and> b = int_of_digits d2))
   \<and> torque_in_range 50 (PyStr (ustr ''5-100 Nm''))
   \<and> \<not> torque_in_range 150 (PyStr (ustr ''5-100 Nm''))
   \<and> \<not> torque_in_range 50 (PyStr (ustr ''NaN''))
   \<and> \<not> torque_in_range 50 (PyStr [])
   \<and> (torque_in_range t (PyStr (ustr ''5'' @ en_dash # ustr ''100 Nm''))
        = torque_in_range t (PyStr (ustr ''5-100 Nm'')))
   \<and> ((\<forall>i\<le>length u. spec_range (drop i u) = None) \<longrightarrow> \<not> torque_in_range t (PyStr u))
   \<and> \<not> torque_in_range t PyNone \<and> \<not> torque_in_range t PyNaN
   \<and> \<not> torque_in_range t (PyNum n)"
proof -
  have a: "torque_in_range t v \<longleftrightarrow>
      (\<exists>s i lo hi. v = PyStr s \<and> i \<le> length s \<and> spec_range (drop i s) = Some (lo, hi)
         \<and> (\<forall>j<i. spec_range (drop j s) = None) \<and> lo \<le> t \<and> t \<le> hi)"
    unfolding torque_in_range_iff parse_range_leftmost by blast
  have b: "spec_range r = Some (a, b) \<longleftrightarrow>
        (\<exists>d1 sep d2 post. r = d1 @ sep # d2 @ post \<and> d1 \<noteq> [] \<and> list_all is_digit d1
           \<and> (sep = 45 \<or> sep = en_dash) \<and> d2 \<noteq> [] \<and> list_all is_digit d2
           \<and> (post = [] \<or> \<not> is_digit (hd post))
           \<and> a = int_of_digits d1 \<and> b = int_of_digits d2)"
    by (rule spec_range_Some)
  have c: "torque_in_range 50 (PyStr (ustr ''5-100 Nm''))"
    by (simp add: torque_in_range_iff parse_range_hyphen)
  have d: "\<not> torque_in_range 150 (PyStr (ustr ''5-100 Nm''))"
    by (simp add: torque_in_range_iff parse_range_hyphen)
  have e: "\<not> torque_in_range 50 (PyStr (ustr ''NaN''))"
    by (simp add: torque_in_range_iff parse_range_NaN)
  have f: "\<not> torque_in_range 50 (PyStr [])"
    by (simp add: torque_in_range_def)
  have g: "torque_in_range t (PyStr (ustr ''5'' @ en_dash # ustr ''100 Nm''))
        = torque_in_range t (PyStr (ustr ''5-100 Nm''))"
    by (simp add: torque_in_range_iff parse_range_hyphen parse_range_en_dash)
  have h: "(\<forall>i\<le>length u. spec_range (drop i u) = None) \<longrightarrow> \<not> torque_in_range t (PyStr u)"
  proof
    assume n: "\<forall>i\<le>length u. spec_range (drop i u) = None"
    have "parse_range u = None"
    proof (cases "parse_range u")
      case (Some p)
      then obtain i where "i \<le> length u" "spec_range (drop i u) = Some p"
        unfolding parse_range_leftmost by blast
      with n show ?thesis by simp
    qed simp
    then show "\<not> torque_in_range t (PyStr u)" by (simp add: torque_in_range_iff)
  qed
  have i: "\<not> torque_in_range t PyNone \<and> \<not> torque_in_range t PyNaN
      \<and> \<not> torque_in_range t (PyNum n)"
    by (simp add: torque_in_range_def)
  from a b c d e f g h i show ?thesis by blast
qed

text \<open>
  A range after other text, a string with no range, and a range written with a digit
  that is not an ASCII digit (U+0665, the Arabic-Indic five).
\<close>

lemma arabic_five: "is_digit 1637" "digit_value 1637 = 5"
  by (simp_all add: is_digit_def digit_value_def digit_zero_def digit_zeros_def)

theorem torque_in_range_leftmost_witness:
  "spec_range (drop 4 (ustr ''M8: 2-80 Nm'')) = Some (2, 80)
   \<and> spec_range (drop 0 (ustr ''M8: 2-80 Nm'')) = None
   \<and> spec_range (drop 1 (ustr ''M8: 2-80 Nm'')) = None
   \<and> spec_range (drop 2 (ustr ''M8: 2-80 Nm'')) = None
   \<and> spec_range (drop 3 (ustr ''M8: 2-80 Nm'')) = None
   \<and> torque_in_range 80 (PyStr (ustr ''M8: 2-80 Nm''))
   \<and> \<not> torque_in_range 81 (PyStr (ustr ''M8: 2-80 Nm''))
   \<and> spec_range ([53, 45, 49, 48, 1637] @ ustr '' Nm'') = Some (5, 105)
   \<and> list_all is_digit [49, 48, 1637]
   \<and> \<not> torque_in_range 81 (PyStr (ustr ''n/a''))"
proof -
  let ?s = "ustr ''M8: 2-80 Nm''"
  have s4: "spec_range (drop 4 ?s) = Some (2, 80)" by (simp add: spec_range_eval)
  have s0: "spec_range (drop 0 ?s) = None" "spec_range (drop 1 ?s) = None"
    "spec_range (drop 2 ?s) = None" "spec_range (drop 3 ?s) = None"
    by (simp_all add: spec_range_eval)
  have lt: "\<forall>j<4. spec_range (drop j ?s) = None"
  proof (intro allI impI)
    fix j :: nat assume "j < 4"
    then consider "j = 0" | "j = 1" | "j = 2" | "j = 3" by linarith
    then show "spec_range (drop j ?s) = None" using s0 by cases simp_all
  qed
  have len: "(4::nat) \<le> length ?s" by (simp add: ustr_def)
  note t = torque_in_range_leftmost
  have "\<exists>s i lo hi. PyStr ?s = PyStr s \<and> i \<le> length s
         \<and> spec_range (drop i s) = Some (lo, hi)
         \<and> (\<forall>j<i. spec_range (drop j s) = None) \<and> lo \<le> 80 \<and> 80 \<le> hi"
    using s4 lt len
    by (intro exI[of _ ?s] exI[of _ 4] exI[of _ 2] exI[of _ 80]) simp
  with t[of 80 "PyStr ?s"] have q: "torque_in_range 80 (PyStr ?s)" by blast
  have "\<not> torque_in_range 81 (PyStr ?s)"
  proof
    assume "torque_in_range 81 (PyStr ?s)"
    with t[of 81 "PyStr ?s"] obtain i lo hi where
      i: "spec_range (drop i ?s) = Some (lo, hi)" "\<forall>j<i. spec_range (drop j ?s) = None"
        "lo \<le> 81" "81 \<le> hi" by blast
    have "i = 4"
    proof (rule ccontr)
      assume "i \<noteq> 4"
      then consider "i < 4" | "4 < i" by linarith
      then show False
      proof cases
        case 1
        with lt i(1) show False by simp
      next
        case 2
        with i(2) s4 show False by simp
      qed
    qed
    with i s4 show False by simp
  qed
  moreover have five: "spec_range ([53, 45, 49, 48, 1637] @ ustr '' Nm'') = Some (5, 105)"
    "list_all is_digit [49, 48, 1637]"
    by (simp_all add: spec_range_eval arabic_five)
  moreover have "\<not> torque_in_range 81 (PyStr (ustr ''n/a''))"
  proof -
    have "\<forall>i\<le>length (ustr ''n/a''). spec_range (drop i (ustr ''n/a'')) = None"
    proof (intro allI impI)
      fix i :: nat assume "i \<le> length (ustr ''n/a'')"
      then consider "i = 0" | "i = 1" | "i = 2" | "i = 3" by (simp add: ustr_def) linarith
      then show "spec_range (drop i (ustr ''n/a'')) = None"
        by cases (simp_all add: spec_range_eval)
    qed
    with t[of 81 _ _ _ _ "ustr ''n/a''"] show ?thesis by blast
  qed
  ultimately show ?thesis using s4 s0 q by blast
qed

section \<open>Verification: filter extraction\<close>

text \<open>
  Claim C5. A query whose lowercased text contains both \<open>manual\<close> and \<open>portable\<close>
  gets the application type \<open>Manual / Portable\<close> and not \<open>Manual\<close>. The application
  type is the answer of the decision list of the specification, evaluated in its fixed
  order with the first match winning: \<open>cordless\<close> or \<open>portable\<close> gives
  \<open>Manual / Portable\<close>; otherwise \<open>automation\<close>, \<open>assembly line\<close> or
  \<open>automated\<close> gives \<open>Automation\<close>; otherwise \<open>manual\<close> gives \<open>Manual\<close>;
  otherwise \<open>controller\<close> or \<open>control system\<close> gives \<open>Control System\<close>; otherwise
  \<open>verification\<close> or \<open>calibration\<close> gives \<open>Quality / Verification\<close>; otherwise the
  key is absent.
\<close>

theorem extract_filters_application_type:
  "f_application_type (extract_filters q) = first_match application_type_rules (lower q)
   \<and> (mentions q ''manual'' \<and> mentions q ''portable''
      \<longrightarrow> f_application_type (extract_filters q) = Some (ustr ''Manual / Portable'')
        \<and> f_application_type (extract_filters q) \<noteq> Some (ustr ''Manual''))
   \<and> (mentions q ''cordless'' \<or> mentions q ''portable''
      \<longrightarrow> f_application_type (extract_filters q) = Some (ustr ''Manual / Portable''))
   \<and> (\<not> mentions q ''cordless'' \<and> \<not> mentions q ''portable''
        \<and> (mentions q ''automation'' \<or> mentions q ''assembly line''
            \<or> mentions q ''automated'')
      \<longrightarrow> f_application_type (extract_filters q) = Some (ustr ''Automation''))
   \<and> (\<not> mentions q ''cordless'' \<and> \<not> mentions q ''portable''
        \<and> \<not> mentions q ''automation'' \<and> \<not> mentions q ''assembly line''
        \<and> \<not> mentions q ''automated'' \<and> mentions q ''manual''
      \<longrightarrow> f_application_type (extract_filters q) = Some (ustr ''Manual''))
   \<and> (\<not> mentions q ''cordless'' \<and> \<not> mentions q ''portable''
        \<and> \<not> mentions q ''automation'' \<and> \<not> mentions q ''assembly line''
        \<and> \<not> mentions q ''automated'' \<and> \<not> mentions q ''manual''
        \<and> (mentions q ''controller'' \<or> mentions q ''control system'')
      \<longrightarrow> f_application_type (extract_filters q) = Some (ustr ''Control System''))
   \<and> (\<not> mentions q ''cordless'' \<and> \<not> mentions q ''portable''
        \<and> \<not> mentions q ''automation'' \<and> \<not> mentions q ''assembly line''
        \<and> \<not> mentions q ''automated'' \<and> \<not> mentions q ''manual''
        \<and> \<not> mentions q ''controller'' \<and> \<not> mentions q ''control system''
        \<and> (mentions q ''verification'' \<or> mentions q ''calibration'')
      \<longrightarrow> f_application_type (extract_filters q) = Some (ustr ''Quality / Verification''))
   \<and> (\<not> mentions q ''cordless'' \<and> \<not> mentions q ''portable''
        \<and> \<not> mentions q ''automation'' \<and> \<not> mentions q ''assembly line''
        \<and> \<not> mentions q ''automated'' \<and> \<not> mentions q ''manual''
        \<and> \<not> mentions q ''controller'' \<and> \<not> mentions q ''control system''
        \<and> \<not> mentions q ''verification'' \<and> \<not> mentions q ''calibration''
      \<longrightarrow> f_application_type (extract_filters q) = None)"
proof -
  have ne: "ustr ''Manual / Portable'' \<noteq> ustr ''Manual''"
    by (simp add: ustr_def)
  have e: "f_application_type (extract_filters q) = extract_application_type (lower q)"
    by (simp add: extract_filters_def)
  have f: "first_match application_type_rules (lower q) = extract_application_type (lower q)"
    by (simp add: application_type_rules_def extract_application_type_def)
  show ?thesis
    unfolding e f extract_application_type_def using ne by simp
qed

text \<open>
  One query for each rule: both \<open>manual\<close> and \<open>portable\<close>; \<open>manual\<close> beside a word of
  the automation rule; \<open>manual\<close> beside a word of the controller rule; words of the
  last two rules together; a word of the last rule alone; and none of the words.
\<close>

lemma mentions_eval:
  "mentions (ustr ''Manual or PORTABLE tool'') ''manual''"
  "mentions (ustr ''Manual or PORTABLE tool'') ''portable''"
  "\<not> mentions (ustr ''manual automation'') ''cordless''"
  "\<not> mentions (ustr ''manual automation'') ''portable''"
  "mentions (ustr ''manual automation'') ''automation''"
  "\<not> mentions (ustr ''manual controller'') ''cordless''"
  "\<not> mentions (ustr ''manual controller'') ''portable''"
  "\<not> mentions (ustr ''manual controller'') ''automation''"
  "\<not> mentions (ustr ''manual controller'') ''assembly line''"
  "\<not> mentions (ustr ''manual controller'') ''automated''"
  "mentions (ustr ''manual controller'') ''manual''"
  "\<not> mentions (ustr ''controller calibration'') ''cordless''"
  "\<not> mentions (ustr ''controller calibration'') ''portable''"
  "\<not> mentions (ustr ''controller calibration'') ''automation''"
  "\<not> mentions (ustr ''controller calibration'') ''assembly line''"
  "\<not> mentions (ustr ''controller calibration'') ''automated''"
  "\<not> mentions (ustr ''controller calibration'') ''manual''"
  "mentions (ustr ''controller calibration'') ''controller''"
  by (simp_all add: lower_def lower_cp_def ustr_def)

lemma mentions_eval_rest:
  "\<not> mentions (ustr ''calibration rig'') ''cordless''"
  "\<not> mentions (ustr ''calibration rig'') ''portable''"
  "\<not> mentions (ustr ''calibration rig'') ''automation''"
  "\<not> mentions (ustr ''calibration rig'') ''assembly line''"
  "\<not> mentions (ustr ''calibration rig'') ''automated''"
  "\<not> mentions (ustr ''calibration rig'') ''manual''"
  "\<not> mentions (ustr ''calibration rig'') ''controller''"
  "\<not> mentions (ustr ''calibration rig'') ''control system''"
  "mentions (ustr ''calibration rig'') ''calibration''"
  "\<not> mentions (ustr ''nutrunner'') ''cordless''"
  "\<not> mentions (ustr ''nutrunner'') ''portable''"
  "\<not> mentions (ustr ''nutrunner'') ''automation''"
  "\<not> mentions (ustr ''nutrunner'') ''assembly line''"
  "\<not> mentions (ustr ''nutrunner'') ''automated''"
  "\<not> mentions (ustr ''nutrunner'') ''manual''"
  "\<not> mentions (ustr ''nutrunner'') ''controller''"
  "\<not> mentions (ustr ''nutrunner'') ''control system''"
  "\<not> mentions (ustr ''nutrunner'') ''verification''"
  "\<not> mentions (ustr ''nutrunner'') ''calibration''"
  by (simp_all add: lower_def lower_cp_def ustr_def)

theorem extract_filters_application_type_witness:
  "mentions (ustr ''Manual or PORTABLE tool'') ''manual''
   \<and> mentions (ustr ''Manual or PORTABLE tool'') ''portable''
   \<and> f_application_type (extract_filters (ustr ''Manual or PORTABLE tool''))
       = Some (ustr ''Manual / Portable'')
   \<and> mentions (ustr ''manual automation'') ''manual''
   \<and> f_application_type (extract_filters (ustr ''manual automation''))
       = Some (ustr ''Automation'')
   \<and> mentions (ustr ''manual controller'') ''controller''
   \<and> f_application_type (extract_filters (ustr ''manual controller''))
       = Some (ustr ''Manual'')
   \<and> mentions (ustr ''controller calibration'') ''calibration''
   \<and> f_application_type (extract_filters (ustr ''controller calibration''))
       = Some (ustr ''Control System'')
   \<and> f_application_type (extract_filters (ustr ''calibration rig''))
       = Some (ustr ''Quality / Verification'')
   \<and> f_application_type (extract_filters (ustr ''nutrunner'')) = None"
proof -
  have more: "mentions (ustr ''manual automation'') ''manual''"
    "mentions (ustr ''manual controller'') ''controller''"
    "mentions (ustr ''controller calibration'') ''calibration''"
    by (simp_all add: lower_def lower_cp_def ustr_def)
  have a: "f_application_type (extract_filters (ustr ''Manual or PORTABLE tool''))
       = Some (ustr ''Manual / Portable'')"
    using extract_filters_application_type[of "ustr ''Manual or PORTABLE tool''"]
      mentions_eval(1,2) by blast
  have b: "f_application_type (extract_filters (ustr ''manual automation''))
       = Some (ustr ''Automation'')"
    using extract_filters_application_type[of "ustr ''manual automation''"]
      mentions_eval(3-5) by blast
  have c: "f_application_type (extract_filters (ustr ''manual controller''))
       = Some (ustr ''Manual'')"
    using extract_filters_application_type[of "ustr ''manual controller''"]
      mentions_eval(6-11) by blast
  have d: "f_application_type (extract_filters (ustr ''controller calibration''))
       = Some (ustr ''Control System'')"
    using extract_filters_application_type[of "ustr ''controller calibration''"]
      mentions_eval(12-18) by blast
  have e: "f_application_type (extract_filters (ustr ''calibration rig''))
       = Some (ustr ''Quality / Verification'')"
    using extract_filters_application_type[of "ustr ''calibration rig''"]
      mentions_eval_rest(1-9) by blast
  have f: "f_application_type (extract_filters (ustr ''nutrunner'')) = None"
    using extract_filters_application_type[of "ustr ''nutrunner''"]
      mentions_eval_rest(10-19) by blast
  from mentions_eval(1,2) more a b c d e f show ?thesis by blast
qed

section \<open>Verification: the metadata filter\<close>

text \<open>Each step keeps the tools that satisfy one predicate of the filters.\<close>

lemma by_voltage_filter:
  "by_voltage f ts =
     filter (\<lambda>t. case f_voltage f of None \<Rightarrow> True
                | Some v \<Rightarrow> str_contains (upper (get_or (voltage t) [])) v) ts"
  by (simp add: by_voltage_def split: option.splits)

lemma by_ip_rating_filter:
  "by_ip_rating f ts =
     filter (\<lambda>t. case f_ip_rating f of None \<Rightarrow> True
                | Some v \<Rightarrow> upper (get_or (ip_rating t) []) = v) ts"
  by (simp add: by_ip_rating_def split: option.splits)

lemma by_application_type_filter:
  "by_application_type f ts =
     filter (\<lambda>t. case f_application_type f of None \<Rightarrow> True
                | Some v \<Rightarrow> application_type t = Some v) ts"
  by (simp add: by_application_type_def split: option.splits)

lemma by_torque_filter:
  "by_torque f ts =
     filter (\<lambda>t. case f_torque f of None \<Rightarrow> True
                | Some r \<Rightarrow> torque_in_range r (get_or (torque_range t) (PyStr []))) ts"
  by (simp add: by_torque_def split: option.splits)

lemmas by_filter =
  by_voltage_filter by_ip_rating_filter by_application_type_filter by_torque_filter

lemma apply_subseq: "subseq (apply_metadata_filters tools f) tools"
proof -
  have "subseq (by_torque f (by_application_type f (by_ip_rating f (by_voltage f tools)))) tools"
    unfolding by_filter
    by (meson subseq_filter_left subseq_order.order_trans)
  then show ?thesis by (simp add: apply_metadata_filters_def)
qed

lemma apply_empty: "\<not> nonempty f \<Longrightarrow> apply_metadata_filters tools f = tools"
  by (simp add: apply_metadata_filters_def)

text \<open>
  Claim C7. With the empty filters the input comes back unchanged; for every filters
  the result is a subsequence of the input (order and multiplicity kept); any two of
  the four steps commute, and the result is the same when the four steps run in the
  opposite order.
\<close>

theorem apply_metadata_filters_spec:
  "apply_metadata_filters tools no_filters = tools
   \<and> subseq (apply_metadata_filters tools f) tools
   \<and> by_voltage f (by_ip_rating f ts) = by_ip_rating f (by_voltage f ts)
   \<and> by_voltage f (by_application_type f ts) = by_application_type f (by_voltage f ts)
   \<and> by_voltage f (by_torque f ts) = by_torque f (by_voltage f ts)
   \<and> by_ip_rating f (by_application_type f ts) = by_application_type f (by_ip_rating f ts)
   \<and> by_ip_rating f (by_torque f ts) = by_torque f (by_ip_rating f ts)
   \<and> by_application_type f (by_torque f ts) = by_torque f (by_application_type f ts)
   \<and> apply_metadata_filters tools f
       = by_voltage f (by_ip_rating f (by_application_type f (by_torque f tools)))"
proof -
  have a: "apply_metadata_filters tools no_filters = tools"
    by (simp add: apply_metadata_filters_def nonempty_def no_filters_def)
  have b: "apply_metadata_filters tools f
       = by_voltage f (by_ip_rating f (by_application_type f (by_torque f tools)))"
  proof (cases "nonempty f")
    case True
    then show ?thesis
      unfolding apply_metadata_filters_def by_filter
      by (simp add: conj_commute conj_left_commute cong: filter_cong)
  next
    case False
    then show ?thesis
      by (simp add: apply_metadata_filters_def nonempty_def by_voltage_def by_ip_rating_def
          by_application_type_def by_torque_def)
  qed
  show ?thesis
    using a b apply_subseq[of tools f]
    unfolding by_filter by (simp add: conj_commute)
qed

lemma filter_18V:
  "apply_metadata_filters [tool_a, tool_b, tool_c]
     (no_filters\<lparr>f_voltage := Some (ustr ''18V'')\<rparr>) = [tool_a]"
  by (simp add: apply_metadata_filters_def nonempty_def no_filters_def by_voltage_def
      by_ip_rating_def by_application_type_def by_torque_def tool_a_def tool_b_def tool_c_def
      mk_tool_def get_or_def upper_def upper_cp_def ustr_def)

theorem apply_metadata_filters_spec_witness:
  "apply_metadata_filters [tool_a, tool_b, tool_c] no_filters = [tool_a, tool_b, tool_c]
   \<and> apply_metadata_filters [tool_a, tool_b, tool_c]
       (no_filters\<lparr>f_voltage := Some (ustr ''18V'')\<rparr>) = [tool_a]
   \<and> subseq [tool_a] [tool_a, tool_b, tool_c]"
proof -
  note s = apply_metadata_filters_spec[of "[tool_a, tool_b, tool_c]"
      "no_filters\<lparr>f_voltage := Some (ustr ''18V'')\<rparr>" "[]"]
  from s have "subseq (apply_metadata_filters [tool_a, tool_b, tool_c]
      (no_filters\<lparr>f_voltage := Some (ustr ''18V'')\<rparr>)) [tool_a, tool_b, tool_c]" by blast
  then have "subseq [tool_a] [tool_a, tool_b, tool_c]" by (simp only: filter_18V)
  with s filter_18V show ?thesis by blast
qed

section \<open>Verification: search within the filtered subset\<close>

lemma tools_distinct: "tool_a \<noteq> tool_b" "tool_a \<noteq> tool_c" "tool_b \<noteq> tool_c"
  by (simp_all add: tool_a_def tool_b_def tool_c_def mk_tool_def ustr_def)

lemma filters_IP40:
  "extract_filters (ustr ''IP40 tool'')
     = \<lparr>f_voltage = None, f_torque = None, f_ip_rating = Some (ustr ''IP40''),
        f_application_type = None\<rparr>"
  by (simp add: extract_filters_def voltage_re_def torque_re_def ip_re_def Plus_def ustr_def
      is_digit_ascii is_space_def ci_def lower_cp_def upper_def upper_cp_def lower_def
      extract_application_type_def)

lemma all_IP40:
  "apply_metadata_filters [tool_b, tool_b, tool_c] (extract_filters (ustr ''IP40 tool''))
     = [tool_b, tool_b, tool_c]"
  unfolding filters_IP40
  by (simp add: apply_metadata_filters_def nonempty_def by_voltage_def
      by_ip_rating_def by_application_type_def by_torque_def tool_b_def tool_c_def
      mk_tool_def get_or_def upper_def upper_cp_def ustr_def)

text \<open>
  Claim C1. The search within the filtered subset returns only tools of the subset,
  membership being decided by the position in the catalog and not by the value, so
  that two identical tools at different positions are distinct; it keeps the
  similarity order among the survivors; and it returns a non-empty list when the
  subset is non-empty. The code looks the filtered tools up with \<open>all_tools.index\<close>,
  which returns the first position whose tool has the same value: a tool that occurs
  twice in the catalog is only ever found at its first position. In the catalog
  \<open>[tool_b, tool_b, tool_c]\<close> the query \<open>IP40 tool\<close> keeps all three positions; with
  the ranking \<open>1, 2, 0\<close> the nearest survivor is position 1, but the positions found
  are \<open>0, 0, 2\<close>, position 1 is passed over, and the search returns the tool at
  position 2, a different tool that is farther from the query.
\<close>

theorem duplicate_tool_passed_over:
  "apply_metadata_filters [tool_b, tool_b, tool_c] (extract_filters (ustr ''IP40 tool''))
     = [tool_b, tool_b, tool_c]
   \<and> filtered_indices [tool_b, tool_b, tool_c] [tool_b, tool_b, tool_c] = Some [0, 0, 2]
   \<and> selected_positions (\<lambda>q k. [1, 2, 0]) (ustr ''IP40 tool'') [tool_b, tool_b, tool_c]
        [tool_b, tool_b, tool_c] 1 = Some [2]
   \<and> semantic_search_on_subset (\<lambda>q k. [1, 2, 0]) (ustr ''IP40 tool'')
        [tool_b, tool_b, tool_c] [tool_b, tool_b, tool_c] 1 = Inr [tool_c]
   \<and> retrieve_tools (\<lambda>q k. [1, 2, 0]) [tool_b, tool_b, tool_c] (ustr ''IP40 tool'') 3 True
        = Inr [tool_c]
   \<and> py_nth [tool_b, tool_b, tool_c] 1 = Some tool_b
   \<and> tool_b \<noteq> tool_c"
proof -
  have fi: "filtered_indices [tool_b, tool_b, tool_c] [tool_b, tool_b, tool_c] = Some [0, 0, 2]"
    using tools_distinct by (simp add: filtered_indices_def)
  have sp: "selected_positions (\<lambda>q k. [1, 2, 0]) (ustr ''IP40 tool'') [tool_b, tool_b, tool_c]
        [tool_b, tool_b, tool_c] 1 = Some [2]"
    by (simp add: selected_positions_def fi matched_indices_def slice_to_def)
  have ss: "semantic_search_on_subset (\<lambda>q k. [1, 2, 0]) (ustr ''IP40 tool'')
        [tool_b, tool_b, tool_c] [tool_b, tool_b, tool_c] 1 = Inr [tool_c]"
    by (simp add: semantic_search_on_subset_def sp py_nth_def)
  have ne: "nonempty (extract_filters (ustr ''IP40 tool''))"
    by (simp add: filters_IP40 nonempty_def)
  have rt: "retrieve_tools (\<lambda>q k. [1, 2, 0]) [tool_b, tool_b, tool_c] (ustr ''IP40 tool'') 3 True
        = Inr [tool_c]"
    unfolding retrieve_tools_def by (simp add: ne all_IP40 ss Let_def)
  have nth: "py_nth [tool_b, tool_b, tool_c] 1 = Some tool_b"
    by (simp add: py_nth_def)
  from all_IP40 fi sp ss rt nth tools_distinct(3) show ?thesis by (intro conjI)
qed

section \<open>Verification: the clarification engine\<close>

lemma length_sorted_set: "length (sorted_set xs) = card (set xs)"
  by (simp add: sorted_set_def length_remdups_card_conv)

lemma fst_ask_voltage:
  "fst (ask_voltage fs ts acc) =
     fst acc @ (if f_voltage fs = None \<and> length (voltages_of ts) > 1
                then [ustr ''What voltage do you need?''] else [])"
  by (simp add: ask_voltage_def)

lemma fst_ask_application_type:
  "fst (ask_application_type fs ts acc) =
     fst acc @ (if f_application_type fs = None \<and> length (app_types_of ts) > 1
                then [ustr ''Is this for manual use or automation?''] else [])"
  by (simp add: ask_application_type_def)

lemma fst_ask_torque:
  "fst (ask_torque fs ts acc) =
     fst acc @ (if f_torque fs = None \<and> torque_ranges_of ts \<noteq> []
                then [ustr ''What torque range do you require?''] else [])"
  by (simp add: ask_torque_def)

lemma fst_ask_ip_rating:
  "fst (ask_ip_rating fs ts acc) =
     fst acc @ (if f_ip_rating fs = None \<and> fst acc = [] \<and> length (ip_ratings_of ts) > 1
                then [ustr ''Do you need a specific IP rating?''] else [])"
  by (simp add: ask_ip_rating_def)

lemma three_empty:
  "((if V then [a] else []) @ (if A then [b] else []) @ (if T then [c] else []) = [])
     \<longleftrightarrow> \<not> V \<and> \<not> A \<and> \<not> T"
  by simp

lemma too_many_questions:
  "fst (too_many fs ts) =
     (if f_voltage fs = None \<and> length (voltages_of ts) > 1
      then [ustr ''What voltage do you need?''] else [])
     @ (if f_application_type fs = None \<and> length (app_types_of ts) > 1
        then [ustr ''Is this for manual use or automation?''] else [])
     @ (if f_torque fs = None \<and> torque_ranges_of ts \<noteq> []
        then [ustr ''What torque range do you require?''] else [])
     @ (if f_ip_rating fs = None
           \<and> \<not> (f_voltage fs = None \<and> length (voltages_of ts) > 1)
           \<and> \<not> (f_application_type fs = None \<and> length (app_types_of ts) > 1)
           \<and> \<not> (f_torque fs = None \<and> torque_ranges_of ts \<noteq> [])
           \<and> length (ip_ratings_of ts) > 1
        then [ustr ''Do you need a specific IP rating?''] else [])"
proof -
  define V where "V \<longleftrightarrow> f_voltage fs = None \<and> length (voltages_of ts) > 1"
  define A where "A \<longleftrightarrow> f_application_type fs = None \<and> length (app_types_of ts) > 1"
  define T where "T \<longleftrightarrow> f_torque fs = None \<and> torque_ranges_of ts \<noteq> []"
  define I where "I \<longleftrightarrow> f_ip_rating fs = None"
  define L where "L \<longleftrightarrow> length (ip_ratings_of ts) > 1"
  have "fst (too_many fs ts) =
      ((if V then [ustr ''What voltage do you need?''] else [])
       @ (if A then [ustr ''Is this for manual use or automation?''] else [])
       @ (if T then [ustr ''What torque range do you require?''] else []))
      @ (if I \<and> ((if V then [ustr ''What voltage do you need?''] else [])
       @ (if A then [ustr ''Is this for manual use or automation?''] else [])
       @ (if T then [ustr ''What torque range do you require?''] else []) = []) \<and> L
         then [ustr ''Do you need a specific IP rating?''] else [])"
    unfolding too_many_def fst_ask_ip_rating fst_ask_torque fst_ask_application_type
      fst_ask_voltage V_def A_def T_def I_def L_def
    by (simp only: fst_conv append_Nil append_assoc)
  then have "fst (too_many fs ts) =
      (if V then [ustr ''What voltage do you need?''] else [])
       @ (if A then [ustr ''Is this for manual use or automation?''] else [])
       @ (if T then [ustr ''What torque range do you require?''] else [])
       @ (if I \<and> \<not> V \<and> \<not> A \<and> \<not> T \<and> L
         then [ustr ''Do you need a specific IP rating?''] else [])"
    by (simp only: three_empty append_assoc conj_assoc)
  then show ?thesis unfolding V_def A_def T_def I_def L_def .
qed

lemma length_slice_to_2: "length (slice_to 2 xs) \<le> 2"
  by (simp add: slice_to_def)

lemma voltages_card:
  "length (voltages_of ts) = card ((\<lambda>t. get_or (voltage t) na) `
               {t \<in> set ts. voltage t \<noteq> None \<and> voltage t \<noteq> Some []})"
  by (simp add: voltages_of_def length_sorted_set)

lemma app_types_card:
  "length (app_types_of ts) = card ((\<lambda>t. get_or (application_type t) na) ` set ts)"
  by (simp add: app_types_of_def length_sorted_set)

lemma ip_ratings_card:
  "length (ip_ratings_of ts) = card ((\<lambda>t. get_or (ip_rating t) na) `
               {t \<in> set ts. ip_rating t \<noteq> None \<and> ip_rating t \<noteq> Some []})"
  by (simp add: ip_ratings_of_def length_sorted_set)

lemma torque_ranges_some:
  "torque_ranges_of ts \<noteq> [] \<longleftrightarrow> (\<exists>t\<in>set ts. truthy (get_or (torque_range t) PyNone)
                 \<and> get_or (torque_range t) PyNone \<noteq> PyStr (ustr ''NaN''))"
  by (simp add: torque_ranges_of_def filter_empty_conv)


text \<open>
  Claim C4, as it holds on the code. For more than 3 results the payload has the status
  \<open>needs_clarification\<close> and at most 2 questions, the first two of the questions
  collected in this order: voltage, if not in the filters and the candidates with a
  voltage have more than one distinct value; application type, if not in the filters
  and the candidates have more than one distinct value; torque, if not in the filters
  and at least one candidate has a torque range that is neither empty nor \<open>NaN\<close>; IP
  rating, if not in the filters, no earlier question was collected, and the candidates
  with an IP rating have more than one distinct value.
\<close>

theorem too_many_results_payload:
  "length ts > 3 \<longrightarrow>
     status (generate_clarification_question q fs ts all) = ustr ''needs_clarification''
   \<and> questions (generate_clarification_question q fs ts all) = slice_to 2 (fst (too_many fs ts))
   \<and> length (questions (generate_clarification_question q fs ts all)) \<le> 2
   \<and> fst (too_many fs ts) =
       (if f_voltage fs = None
           \<and> card ((\<lambda>t. get_or (voltage t) na) `
                 {t \<in> set ts. voltage t \<noteq> None \<and> voltage t \<noteq> Some []}) > 1
        then [ustr ''What voltage do you need?''] else [])
       @ (if f_application_type fs = None
             \<and> card ((\<lambda>t. get_or (application_type t) na) ` set ts) > 1
          then [ustr ''Is this for manual use or automation?''] else [])
       @ (if f_torque fs = None
             \<and> (\<exists>t\<in>set ts. truthy (get_or (torque_range t) PyNone)
                   \<and> get_or (torque_range t) PyNone \<noteq> PyStr (ustr ''NaN''))
          then [ustr ''What torque range do you require?''] else [])
       @ (if f_ip_rating fs = None
             \<and> \<not> (f_voltage fs = None
                 \<and> card ((\<lambda>t. get_or (voltage t) na) `
                       {t \<in> set ts. voltage t \<noteq> None \<and> voltage t \<noteq> Some []}) > 1)
             \<and> \<not> (f_application_type fs = None
                 \<and> card ((\<lambda>t. get_or (application_type t) na) ` set ts) > 1)
             \<and> \<not> (f_torque fs = None
                 \<and> (\<exists>t\<in>set ts. truthy (get_or (torque_range t) PyNone)
                       \<and> get_or (torque_range t) PyNone \<noteq> PyStr (ustr ''NaN'')))
             \<and> card ((\<lambda>t. get_or (ip_rating t) na) `
                   {t \<in> set ts. ip_rating t \<noteq> None \<and> ip_rating t \<noteq> Some []}) > 1
          then [ustr ''Do you need a specific IP rating?''] else [])"
proof -
  have q: "fst (too_many fs ts) = 
       (if f_voltage fs = None
           \<and> card ((\<lambda>t. get_or (voltage t) na) `
                 {t \<in> set ts. voltage t \<noteq> None \<and> voltage t \<noteq> Some []}) > 1
        then [ustr ''What voltage do you need?''] else [])
       @ (if f_application_type fs = None
             \<and> card ((\<lambda>t. get_or (application_type t) na) ` set ts) > 1
          then [ustr ''Is this for manual use or automation?''] else [])
       @ (if f_torque fs = None
             \<and> (\<exists>t\<in>set ts. truthy (get_or (torque_range t) PyNone)
                   \<and> get_or (torque_range t) PyNone \<noteq> PyStr (ustr ''NaN''))
          then [ustr ''What torque range do you require?''] else [])
       @ (if f_ip_rating fs = None
             \<and> \<not> (f_voltage fs = None
                 \<and> card ((\<lambda>t. get_or (voltage t) na) `
                       {t \<in> set ts. voltage t \<noteq> None \<and> voltage t \<noteq> Some []}) > 1)
             \<and> \<not> (f_application_type fs = None
                 \<and> card ((\<lambda>t. get_or (application_type t) na) ` set ts) > 1)
             \<and> \<not> (f_torque fs = None
                 \<and> (\<exists>t\<in>set ts. truthy (get_or (torque_range t) PyNone)
                       \<and> get_or (torque_range t) PyNone \<noteq> PyStr (ustr ''NaN'')))
             \<and> card ((\<lambda>t. get_or (ip_rating t) na) `
                   {t \<in> set ts. ip_rating t \<noteq> None \<and> ip_rating t \<noteq> Some []}) > 1
          then [ustr ''Do you need a specific IP rating?''] else [])"
    by (rule too_many_questions[of fs ts, unfolded voltages_card app_types_card ip_ratings_card
          torque_ranges_some])
  have s: "length ts > 3 \<Longrightarrow>
     status (generate_clarification_question q fs ts all) = ustr ''needs_clarification''
   \<and> questions (generate_clarification_question q fs ts all) = slice_to 2 (fst (too_many fs ts))"
    by (cases ts) (simp_all add: generate_clarification_question_def)
  show ?thesis
    using q s length_slice_to_2[of "fst (too_many fs ts)"] by (simp only:) simp
qed

lemma four_a_questions:
  "fst (too_many no_filters [tool_a, tool_a, tool_a, tool_a])
     = [ustr ''What torque range do you require?'']"
proof -
  have v: "voltages_of [tool_a, tool_a, tool_a, tool_a] = [ustr ''18V DC'']"
    by (simp add: voltages_of_def sorted_set_def tool_a_def mk_tool_def get_or_def ustr_def)
  have a: "app_types_of [tool_a, tool_a, tool_a, tool_a] = [ustr ''Manual / Portable'']"
    by (simp add: app_types_of_def sorted_set_def tool_a_def mk_tool_def get_or_def)
  have t: "torque_ranges_of [tool_a, tool_a, tool_a, tool_a]
      = replicate 4 (PyStr (ustr ''5-100 Nm''))"
    by (simp add: torque_ranges_of_def tool_a_def mk_tool_def get_or_def truthy_def ustr_def
        numeral_eq_Suc)
  have i: "ip_ratings_of [tool_a, tool_a, tool_a, tool_a] = [ustr ''IP54'']"
    by (simp add: ip_ratings_of_def sorted_set_def tool_a_def mk_tool_def get_or_def ustr_def)
  show ?thesis
    unfolding too_many_questions v a t i by (simp add: no_filters_def)
qed

text \<open>
  The torque question does not need more than one distinct value: four candidates
  with the same torque range, voltage, application type and IP rating get the torque
  question.
\<close>

theorem torque_question_counterexample:
  "questions (generate_clarification_question (ustr ''nutrunner'') no_filters
       [tool_a, tool_a, tool_a, tool_a] [tool_a, tool_a, tool_a, tool_a])
     = [ustr ''What torque range do you require?'']
   \<and> card (set (torque_ranges_of [tool_a, tool_a, tool_a, tool_a])) = 1"
proof -
  have t: "torque_ranges_of [tool_a, tool_a, tool_a, tool_a]
      = replicate 4 (PyStr (ustr ''5-100 Nm''))"
    by (simp add: torque_ranges_of_def tool_a_def mk_tool_def get_or_def truthy_def ustr_def
        numeral_eq_Suc)
  show ?thesis
    unfolding t by (simp add: generate_clarification_question_def four_a_questions slice_to_def)
qed


theorem too_many_results_payload_witness:
  "length [tool_a, tool_a, tool_a, tool_a] > 3
   \<and> status (generate_clarification_question (ustr ''nutrunner'') no_filters
        [tool_a, tool_a, tool_a, tool_a] [tool_a]) = ustr ''needs_clarification''
   \<and> length (questions (generate_clarification_question (ustr ''nutrunner'') no_filters
        [tool_a, tool_a, tool_a, tool_a] [tool_a])) \<le> 2"
proof -
  have h: "length [tool_a, tool_a, tool_a, tool_a] > 3" by simp
  with too_many_results_payload[of "[tool_a, tool_a, tool_a, tool_a]" "ustr ''nutrunner''"
      no_filters "[tool_a]"]
  show ?thesis by blast
qed

lemma too_many_all_filters:
  "f_voltage fs \<noteq> None \<Longrightarrow> f_torque fs \<noteq> None \<Longrightarrow> f_ip_rating fs \<noteq> None \<Longrightarrow>
   f_application_type fs \<noteq> None \<Longrightarrow> too_many fs ts = ([], [])"
  by (simp add: too_many_def ask_voltage_def ask_application_type_def ask_torque_def
      ask_ip_rating_def)

text \<open>
  Claim C10. When the filters hold all four keys and more than 3 tools remain, the
  payload for too many results has no question and no suggestion (and still the status
  \<open>needs_clarification\<close>): this payload is not guaranteed to contain a question.
\<close>

theorem all_filters_no_question:
  "f_voltage fs \<noteq> None \<and> f_torque fs \<noteq> None \<and> f_ip_rating fs \<noteq> None
     \<and> f_application_type fs \<noteq> None \<and> length ts > 3
   \<longrightarrow> questions (generate_clarification_question q fs ts all) = []
     \<and> suggestions (generate_clarification_question q fs ts all) = []
     \<and> status (generate_clarification_question q fs ts all) = ustr ''needs_clarification''"
  by (cases ts)
     (simp_all add: generate_clarification_question_def too_many_all_filters slice_to_def)

theorem all_filters_no_question_witness:
  "length [tool_a, tool_a, tool_a, tool_a] > 3
   \<and> apply_metadata_filters [tool_a, tool_a, tool_a, tool_a] all_four
       = [tool_a, tool_a, tool_a, tool_a]
   \<and> questions (generate_clarification_question (ustr ''18V cordless IP54 50Nm'') all_four
        [tool_a, tool_a, tool_a, tool_a] [tool_a, tool_a, tool_a, tool_a]) = []
   \<and> suggestions (generate_clarification_question (ustr ''18V cordless IP54 50Nm'') all_four
        [tool_a, tool_a, tool_a, tool_a] [tool_a, tool_a, tool_a, tool_a]) = []"
proof -
  have h: "f_voltage all_four \<noteq> None \<and> f_torque all_four \<noteq> None \<and> f_ip_rating all_four \<noteq> None
     \<and> f_application_type all_four \<noteq> None \<and> length [tool_a, tool_a, tool_a, tool_a] > 3"
    by (simp add: all_four_def)
  have t: "torque_in_range 50 (PyStr (ustr ''5-100 Nm''))"
    by (simp add: torque_in_range_iff parse_range_hyphen)
  have a: "apply_metadata_filters [tool_a, tool_a, tool_a, tool_a] all_four
       = [tool_a, tool_a, tool_a, tool_a]"
    using t
    by (simp add: apply_metadata_filters_def nonempty_def all_four_def by_voltage_def
      by_ip_rating_def by_application_type_def by_torque_def tool_a_def
      mk_tool_def get_or_def upper_def upper_cp_def ustr_def)
  from all_filters_no_question[of all_four "[tool_a, tool_a, tool_a, tool_a]"
      "ustr ''18V cordless IP54 50Nm''" "[tool_a, tool_a, tool_a, tool_a]"] h a
  show ?thesis by blast
qed





section \<open>Verification: session eviction\<close>

text \<open>
  Claim C8. \<open>get_session\<close> first drops every session whose inactivity at the clock
  reading of the cleanup is strictly more than 30 minutes. For such a session id, and
  for an unseen id, it then creates and stores a fresh session: empty history, empty
  filters, clarification count zero. A session whose inactivity is at most 30 minutes
  is kept, and when it is the one looked up it is returned with \<open>last_accessed\<close> set
  to the next clock reading. Other sessions are kept or dropped by the same test.
\<close>

theorem session_eviction:
  "(ss sid = Some s \<and> now0 - last_accessed s > SESSION_TIMEOUT \<longrightarrow>
      cleanup_expired_sessions now0 ss sid = None
      \<and> get_session now0 now1 now2 sid ss
          = (fresh now1 now2 sid, (cleanup_expired_sessions now0 ss)(sid \<mapsto> fresh now1 now2 sid))
      \<and> conversation_history (fst (get_session now0 now1 now2 sid ss)) = []
      \<and> extracted_filters (fst (get_session now0 now1 now2 sid ss)) = no_filters
      \<and> clarification_count (fst (get_session now0 now1 now2 sid ss)) = 0)
   \<and> (ss sid = None \<longrightarrow>
      get_session now0 now1 now2 sid ss
          = (fresh now1 now2 sid, (cleanup_expired_sessions now0 ss)(sid \<mapsto> fresh now1 now2 sid)))
   \<and> (ss sid = Some s \<and> now0 - last_accessed s \<le> SESSION_TIMEOUT \<longrightarrow>
      cleanup_expired_sessions now0 ss sid = Some s
      \<and> get_session now0 now1 now2 sid ss
          = (s\<lparr>last_accessed := now1\<rparr>,
             (cleanup_expired_sessions now0 ss)(sid \<mapsto> s\<lparr>last_accessed := now1\<rparr>))
      \<and> last_accessed (fst (get_session now0 now1 now2 sid ss)) = now1)
   \<and> (other \<noteq> sid \<and> ss other = Some s' \<and> now0 - last_accessed s' \<le> SESSION_TIMEOUT \<longrightarrow>
      snd (get_session now0 now1 now2 sid ss) other = Some s')
   \<and> (other \<noteq> sid \<and> ss other = Some s' \<and> now0 - last_accessed s' > SESSION_TIMEOUT \<longrightarrow>
      snd (get_session now0 now1 now2 sid ss) other = None)
   \<and> snd (get_session now0 now1 now2 sid ss) sid = Some (fst (get_session now0 now1 now2 sid ss))
   \<and> SESSION_TIMEOUT = 1800000000"
  by (auto simp: get_session_def cleanup_expired_sessions_def create_session_def fresh_def
      Let_def SESSION_TIMEOUT_def split: option.splits)

theorem session_eviction_witness:
  "fst (get_session 1800000001 1800000002 1800000003 (ustr ''s1'')
         [ustr ''s1'' \<mapsto> old_session])
     = fresh 1800000002 1800000003 (ustr ''s1'')
   \<and> fst (get_session 1800000000 1800000002 1800000003 (ustr ''s1'')
         [ustr ''s1'' \<mapsto> old_session])
     = old_session\<lparr>last_accessed := 1800000002\<rparr>"
proof -
  have a: "[ustr ''s1'' \<mapsto> old_session] (ustr ''s1'') = Some old_session
      \<and> 1800000001 - last_accessed old_session > SESSION_TIMEOUT"
    by (simp add: old_session_def SESSION_TIMEOUT_def)
  have b: "[ustr ''s1'' \<mapsto> old_session] (ustr ''s1'') = Some old_session
      \<and> 1800000000 - last_accessed old_session \<le> SESSION_TIMEOUT"
    by (simp add: old_session_def SESSION_TIMEOUT_def)
  from a session_eviction[of "[ustr ''s1'' \<mapsto> old_session]" "ustr ''s1''" old_session
      1800000001 1800000002 1800000003 "[]" old_session]
  have "get_session 1800000001 1800000002 1800000003 (ustr ''s1'')
         [ustr ''s1'' \<mapsto> old_session]
     = (fresh 1800000002 1800000003 (ustr ''s1''),
        (cleanup_expired_sessions 1800000001 [ustr ''s1'' \<mapsto> old_session])
          (ustr ''s1'' \<mapsto> fresh 1800000002 1800000003 (ustr ''s1'')))"
    by blast
  then have x: "fst (get_session 1800000001 1800000002 1800000003 (ustr ''s1'')
         [ustr ''s1'' \<mapsto> old_session]) = fresh 1800000002 1800000003 (ustr ''s1'')"
    by (simp only: fst_conv)
  from b session_eviction[of "[ustr ''s1'' \<mapsto> old_session]" "ustr ''s1''" old_session
      1800000000 1800000002 1800000003 "[]" old_session]
  have "get_session 1800000000 1800000002 1800000003 (ustr ''s1'')
         [ustr ''s1'' \<mapsto> old_session]
     = (old_session\<lparr>last_accessed := 1800000002\<rparr>,
        (cleanup_expired_sessions 1800000000 [ustr ''s1'' \<mapsto> old_session])
          (ustr ''s1'' \<mapsto> old_session\<lparr>last_accessed := 1800000002\<rparr>))"
    by blast
  then have y: "fst (get_session 1800000000 1800000002 1800000003 (ustr ''s1'')
         [ustr ''s1'' \<mapsto> old_session]) = old_session\<lparr>last_accessed := 1800000002\<rparr>"
    by (simp only: fst_conv)
  from x y show ?thesis by blast
qed

section \<open>Verification: no match\<close>

lemma needs_clarification_no_results: "fst (needs_clarification c file q fs [])"
  by (simp add: needs_clarification_def Let_def split: prod.splits)

lemma retrieve_tools_no_match:
  "nonempty (extract_filters q) \<Longrightarrow> apply_metadata_filters tools (extract_filters q) = [] \<Longrightarrow>
   retrieve_tools nearest tools q top_k True = Inr []"
  by (simp add: retrieve_tools_def Let_def)

lemma run_agent_no_results:
  assumes "retrieve_tools nearest catalog
      (enhanced_query uq sess
         (has_specific_tool (fst (load_tool_names c (Some catalog))) (lower uq))) 3 True = Inr []"
  shows "\<exists>p c'. run_agent nearest recommend loads catalog c uq sess = (Inr (Clarify p), c')
     \<and> status p = ustr ''needs_clarification''
     \<and> questions p = [ustr ''What type of tool are you looking for?'',
                      ustr ''What will be the primary use case?'']"
proof -
  obtain kws c1 where l: "load_tool_names c (Some catalog) = (kws, c1)"
    by (cases "load_tool_names c (Some catalog)")
  define merged where "merged =
     (if has_specific_tool kws (lower uq) then extract_filters uq
      else merge_filters (case sess of Some s \<Rightarrow> get_accumulated_filters s | None \<Rightarrow> no_filters)
             (extract_filters uq))"
  obtain b c2 where n: "needs_clarification c1 (Some catalog) uq merged [] = (b, c2)"
    by (cases "needs_clarification c1 (Some catalog) uq merged []")
  with needs_clarification_no_results[of c1 "Some catalog" uq merged] have b: "b" by simp
  have r: "retrieve_tools nearest catalog
      (enhanced_query uq sess (has_specific_tool kws (lower uq))) 3 True = Inr []"
    using assms l by simp
  have "run_agent nearest recommend loads catalog c uq sess =
     (Inr (Clarify ((generate_clarification_question uq merged [] catalog)
                      \<lparr>p_filters := Some merged\<rparr>)), c2)"
    unfolding run_agent_def Let_def l prod.case r merged_def[symmetric]
    using n b by simp
  then show ?thesis
    by (simp add: generate_clarification_question_def)
qed

text \<open>
  Claim C3. When the filters extracted from the query are non-empty and the metadata
  filter leaves no tool of the catalog, \<open>retrieve_tools\<close> returns the empty list,
  whatever the nearest-neighbour search would answer (it is not consulted). No results
  always need clarification, and the clarification payload for no results has the
  status \<open>needs_clarification\<close>; so a turn whose retrieval is empty ends in
  \<open>run_agent\<close> with that payload and not with an error, in particular the turn of
  such a query without a session.
\<close>

theorem no_match_goes_to_clarification:
  "(nonempty (extract_filters q) \<and> apply_metadata_filters tools (extract_filters q) = []
      \<longrightarrow> retrieve_tools nearest tools q top_k True = Inr [])
   \<and> fst (needs_clarification c file q fs [])
   \<and> status (generate_clarification_question q fs [] tools) = ustr ''needs_clarification''
   \<and> (retrieve_tools nearest tools
        (enhanced_query q sess
           (has_specific_tool (fst (load_tool_names c (Some tools))) (lower q))) 3 True = Inr []
      \<longrightarrow> (\<exists>p c'. run_agent nearest recommend loads tools c q sess = (Inr (Clarify p), c')
            \<and> status p = ustr ''needs_clarification''
            \<and> questions p = [ustr ''What type of tool are you looking for?'',
                             ustr ''What will be the primary use case?'']))
   \<and> (nonempty (extract_filters q) \<and> apply_metadata_filters tools (extract_filters q) = []
      \<longrightarrow> (\<exists>p c'. run_agent nearest recommend loads tools c q None = (Inr (Clarify p), c')
            \<and> status p = ustr ''needs_clarification''))"
proof -
  have a: "nonempty (extract_filters q) \<and> apply_metadata_filters tools (extract_filters q) = []
      \<longrightarrow> retrieve_tools nearest tools q top_k True = Inr []"
    using retrieve_tools_no_match by blast
  have b: "fst (needs_clarification c file q fs [])"
    by (rule needs_clarification_no_results)
  have d: "status (generate_clarification_question q fs [] tools) = ustr ''needs_clarification''"
    by (simp add: generate_clarification_question_def)
  have e: "retrieve_tools nearest tools
        (enhanced_query q sess
           (has_specific_tool (fst (load_tool_names c (Some tools))) (lower q))) 3 True = Inr []
      \<longrightarrow> (\<exists>p c'. run_agent nearest recommend loads tools c q sess = (Inr (Clarify p), c')
            \<and> status p = ustr ''needs_clarification''
            \<and> questions p = [ustr ''What type of tool are you looking for?'',
                             ustr ''What will be the primary use case?''])"
    using run_agent_no_results by blast
  have f: "nonempty (extract_filters q) \<and> apply_metadata_filters tools (extract_filters q) = []
      \<longrightarrow> (\<exists>p c'. run_agent nearest recommend loads tools c q None = (Inr (Clarify p), c')
            \<and> status p = ustr ''needs_clarification'')"
  proof
    assume h: "nonempty (extract_filters q) \<and> apply_metadata_filters tools (extract_filters q) = []"
    then have "retrieve_tools nearest tools q 3 True = Inr []"
      using retrieve_tools_no_match by blast
    then have "retrieve_tools nearest tools
        (enhanced_query q None
           (has_specific_tool (fst (load_tool_names c (Some tools))) (lower q))) 3 True = Inr []"
      by (simp add: enhanced_query_def)
    from run_agent_no_results[OF this, of recommend loads]
    show "\<exists>p c'. run_agent nearest recommend loads tools c q None = (Inr (Clarify p), c')
            \<and> status p = ustr ''needs_clarification''" by blast
  qed
  from a b d e f show ?thesis by (intro conjI)
qed

lemma filters_12V:
  "extract_filters (ustr ''12V cordless'')
     = \<lparr>f_voltage = Some (ustr ''12V''), f_torque = None, f_ip_rating = None,
        f_application_type = Some (ustr ''Manual / Portable'')\<rparr>"
  by (simp add: extract_filters_def voltage_re_def torque_re_def ip_re_def Plus_def ustr_def
      is_digit_ascii is_space_def ci_def lower_cp_def upper_def upper_cp_def lower_def
      extract_application_type_def)


lemma no_12V:
  "apply_metadata_filters [tool_a, tool_b, tool_c] (extract_filters (ustr ''12V cordless'')) = []"
  unfolding filters_12V
  by (simp add: apply_metadata_filters_def nonempty_def by_voltage_def
      by_ip_rating_def by_application_type_def by_torque_def tool_a_def tool_b_def tool_c_def
      mk_tool_def get_or_def upper_def upper_cp_def ustr_def)

theorem no_match_goes_to_clarification_witness:
  "nonempty (extract_filters (ustr ''12V cordless''))
   \<and> apply_metadata_filters [tool_a, tool_b, tool_c] (extract_filters (ustr ''12V cordless'')) = []
   \<and> retrieve_tools (\<lambda>q k. [0, 1, 2]) [tool_a, tool_b, tool_c] (ustr ''12V cordless'') 3 True
       = Inr []
   \<and> (\<exists>p c'. run_agent (\<lambda>q k. [0, 1, 2]) (\<lambda>q ts fs. []) (\<lambda>s. None) [tool_a, tool_b, tool_c]
                empty_cache (ustr ''12V cordless'') None = (Inr (Clarify p), c')
            \<and> status p = ustr ''needs_clarification'')"
proof -
  have h: "nonempty (extract_filters (ustr ''12V cordless''))
      \<and> apply_metadata_filters [tool_a, tool_b, tool_c]
           (extract_filters (ustr ''12V cordless'')) = []"
    using no_12V by (simp add: filters_12V nonempty_def)
  note t = no_match_goes_to_clarification[of "ustr ''12V cordless''" "[tool_a, tool_b, tool_c]"
      "\<lambda>q k. [0, 1, 2]" 3 empty_cache None no_filters None "\<lambda>q ts fs. []" "\<lambda>s. None"]
  from t h have r: "retrieve_tools (\<lambda>q k. [0, 1, 2]) [tool_a, tool_b, tool_c]
       (ustr ''12V cordless'') 3 True = Inr []" by blast
  from t h have a: "\<exists>p c'. run_agent (\<lambda>q k. [0, 1, 2]) (\<lambda>q ts fs. []) (\<lambda>s. None)
                [tool_a, tool_b, tool_c] empty_cache (ustr ''12V cordless'') None
                  = (Inr (Clarify p), c')
            \<and> status p = ustr ''needs_clarification''" by blast
  from h r a show ?thesis by blast
qed

section \<open>Verification: extraction of the JSON object\<close>

































end
